theory Spec2Isabelle
  imports Main "HOL-Library.Word"
begin

unbundle bit_operations_syntax

section \<open>JavaScript values\<close>

text \<open>
  A JavaScript string is a sequence of 16-bit code units. The literals of the source
  are ASCII and are written \<open>js ''...''\<close>.
\<close>

type_synonym jsstring = "16 word list"

definition js :: "string \<Rightarrow> jsstring" where
  "js s = map of_char s"

text \<open>
  The values an AST is made of. A number is modelled when it is an integer (lengths,
  indices, line and column numbers) or \<open>NaN\<close>; an object is the list of its own
  properties, a property that is absent reads as \<open>undefined\<close>.
\<close>

datatype val =
    Undefined
  | Null
  | Bool bool
  | Num int
  | NaN
  | Str jsstring
  | Arr "val list"
  | Obj "(string \<times> val) list"

datatype error =
    TypeError
  | AssertionError
  | NotMatchType string
  | UnknownType val
  | UnsupportedHandlebarsType val
  | UnsupportedHandlebarsAttributeType val

text \<open>\<open>!v\<close> is \<open>\<not> truthy v\<close>.\<close>

fun truthy :: "val \<Rightarrow> bool" where
  "truthy Undefined = False"
| "truthy Null = False"
| "truthy (Bool b) = b"
| "truthy (Num n) = (n \<noteq> 0)"
| "truthy NaN = False"
| "truthy (Str s) = (s \<noteq> [])"
| "truthy (Arr xs) = True"
| "truthy (Obj fs) = True"

text \<open>
  \<open>v.k\<close> for a property name \<open>k\<close> of the source: a \<open>TypeError\<close> on \<open>undefined\<close> and
  \<open>null\<close>, the length of a string or an array, \<open>undefined\<close> for what is absent.
\<close>

fun get :: "val \<Rightarrow> string \<Rightarrow> error + val" where
  "get Undefined k = Inl TypeError"
| "get Null k = Inl TypeError"
| "get (Obj fs) k = Inr (case map_of fs k of Some v \<Rightarrow> v | None \<Rightarrow> Undefined)"
| "get (Str s) k = Inr (if k = ''length'' then Num (int (length s)) else Undefined)"
| "get (Arr xs) k = Inr (if k = ''length'' then Num (int (length xs)) else Undefined)"
| "get v k = Inr Undefined"

section \<open>String literals: \<open>nodeStr\<close>\<close>

text \<open>
  \<open>JSON.stringify\<close> of a string is the built-in \<open>QuoteJSONString\<close> of ECMA-262: the
  string between two double quotes, with \<open>"\<close> and \<open>\\<close> behind a backslash, the
  control characters as \<open>\b \t \n \f \r\<close> or \<open>\u00xx\<close>, and a surrogate that is not
  part of a pair as \<open>\udxxx\<close>.
\<close>

definition hexDigit :: "16 word \<Rightarrow> 16 word" where
  "hexDigit d = (if d < 10 then 0x30 + d else 0x57 + d)"

definition unicodeEscape :: "16 word \<Rightarrow> jsstring" where
  "unicodeEscape c =
     [0x5C, 0x75, hexDigit (drop_bit 12 c), hexDigit (drop_bit 8 c AND 15),
      hexDigit (drop_bit 4 c AND 15), hexDigit (c AND 15)]"

definition isLeadingSurrogate :: "16 word \<Rightarrow> bool" where
  "isLeadingSurrogate c = (0xD800 \<le> c \<and> c \<le> 0xDBFF)"

definition isTrailingSurrogate :: "16 word \<Rightarrow> bool" where
  "isTrailingSurrogate c = (0xDC00 \<le> c \<and> c \<le> 0xDFFF)"

definition quoteUnit :: "16 word \<Rightarrow> jsstring" where
  "quoteUnit c =
     (if c = 0x08 then [0x5C, 0x62]
      else if c = 0x09 then [0x5C, 0x74]
      else if c = 0x0A then [0x5C, 0x6E]
      else if c = 0x0C then [0x5C, 0x66]
      else if c = 0x0D then [0x5C, 0x72]
      else if c = 0x22 then [0x5C, 0x22]
      else if c = 0x5C then [0x5C, 0x5C]
      else if c < 0x20 \<or> isLeadingSurrogate c \<or> isTrailingSurrogate c then unicodeEscape c
      else [c])"

fun quoteBody :: "jsstring \<Rightarrow> jsstring" where
  "quoteBody [] = []"
| "quoteBody [c] = quoteUnit c"
| "quoteBody (c # d # cs) =
     (if isLeadingSurrogate c \<and> isTrailingSurrogate d then c # d # quoteBody cs
      else quoteUnit c @ quoteBody (d # cs))"

definition JSON_stringify :: "jsstring \<Rightarrow> jsstring" where
  "JSON_stringify s = 0x22 # quoteBody s @ [0x22]"

text \<open>
  \<open>str.replace(/['"]/g, function(m) { return m === '"' ? '\'' : '"'; })\<close>: the
  function is applied to each code unit the pattern matches.
\<close>

definition swapQuote :: "16 word \<Rightarrow> 16 word" where
  "swapQuote m = (if m = 0x22 then 0x27 else 0x22)"

definition swapQuotes :: "jsstring \<Rightarrow> jsstring" where
  "swapQuotes str = map (\<lambda>m. if m = 0x27 \<or> m = 0x22 then swapQuote m else m) str"

text \<open>
  \<open>nodeStr(str, options)\<close>, with \<open>options.quote\<close> as its second argument.
  \<open>isString.assert\<close> throws on anything but a string.
\<close>

definition nodeStr :: "val \<Rightarrow> val \<Rightarrow> error + jsstring" where
  "nodeStr str quote =
     (case str of
        Str s \<Rightarrow>
          if quote = Str (js ''auto'') then
            (let double = JSON_stringify s;
                 single = swapQuotes (JSON_stringify (swapQuotes s))
             in Inr (if length double > length single then single else double))
          else if quote = Str (js ''single'') then
            Inr (swapQuotes (JSON_stringify (swapQuotes s)))
          else Inr (JSON_stringify s)
      | _ \<Rightarrow> Inl (NotMatchType ''string''))"

text \<open>
  The two renderings \<open>auto\<close> chooses between, and the number of characters each has to
  put behind a backslash because they are the quote itself.
\<close>

definition doubleQuoted :: "jsstring \<Rightarrow> jsstring" where
  "doubleQuoted s = JSON_stringify s"

definition singleQuoted :: "jsstring \<Rightarrow> jsstring" where
  "singleQuoted s = swapQuotes (JSON_stringify (swapQuotes s))"

definition singleQuotes :: "jsstring \<Rightarrow> nat" where
  "singleQuotes s = count_list s 0x27"

definition doubleQuotes :: "jsstring \<Rightarrow> nat" where
  "doubleQuotes s = count_list s 0x22"

text \<open>What \<open>swapQuotes\<close> does to one code unit.\<close>

definition sw :: "16 word \<Rightarrow> 16 word" where
  "sw m = (if m = 0x27 \<or> m = 0x22 then swapQuote m else m)"

section \<open>Documents and paths\<close>

text \<open>
  Modelled from the spec: the document builders (\<open>./pp\<close>, \<open>./doc-builders\<close>) are not
  under src/. A document is text, a concatenation, a line of some kind, an indentation
  or a group, exclusive (\<open>multilineGroup\<close>) or not. The source tells \<open>line\<close> (a space
  when flat) from \<open>softline\<close> (nothing when flat), so a line has four kinds. A
  JavaScript value that is not a string but stands where a document is expected is
  kept as it is (\<open>Opaque\<close>). \<open>indent\<close> has a width in \<open>./pp\<close> and none in
  \<open>./doc-builders\<close>.
\<close>

datatype lineKind = Plain | Soft | Hard | Literal

datatype doc =
    Text jsstring
  | Opaque val
  | Concat "doc list"
  | Line lineKind
  | Indent "nat option" doc
  | Group doc bool

fun docOf :: "val \<Rightarrow> doc" where
  "docOf (Str s) = Text s"
| "docOf v = Opaque v"

definition fromString :: "val \<Rightarrow> doc" where
  "fromString v = docOf v"

definition concat_doc :: "doc list \<Rightarrow> doc" where
  "concat_doc parts = Concat parts"

fun separate :: "doc \<Rightarrow> doc list \<Rightarrow> doc list" where
  "separate sep [] = []"
| "separate sep [d] = [d]"
| "separate sep (d # e # ds) = d # sep # separate sep (e # ds)"

definition join :: "doc \<Rightarrow> doc list \<Rightarrow> doc" where
  "join sep arr = concat_doc (separate sep arr)"

definition line :: doc where
  "line = Line Plain"

definition softline :: doc where
  "softline = Line Soft"

definition hardline :: doc where
  "hardline = Line Hard"

definition group :: "doc \<Rightarrow> doc" where
  "group d = Group d False"

definition multilineGroup :: "doc \<Rightarrow> doc" where
  "multilineGroup d = Group d True"

definition indent :: "nat \<Rightarrow> doc \<Rightarrow> doc" where
  "indent n d = Indent (Some n) d"

definition indent_hbs :: "doc \<Rightarrow> doc" where
  "indent_hbs d = Indent None d"

text \<open>A thrown error ends the computation: the rest is not run.\<close>

fun bindE :: "error + 'a \<Rightarrow> ('a \<Rightarrow> error + 'b) \<Rightarrow> error + 'b" where
  "bindE (Inl e) f = Inl e"
| "bindE (Inr x) f = f x"

fun mapE :: "('a \<Rightarrow> error + 'b) \<Rightarrow> 'a list \<Rightarrow> error + 'b list" where
  "mapE f [] = Inr []"
| "mapE f (x # xs) = bindE (f x) (\<lambda>y. bindE (mapE f xs) (\<lambda>ys. Inr (y # ys)))"

text \<open>
  Modelled from the spec: the path (\<open>./fast-path\<close>) is not under src/. It is the stack
  of frames built during the descent, the current one first; a frame is the name (a
  field or an index) under which its value was reached.
\<close>

datatype name = Root | Field string | Index nat

type_synonym path = "(name \<times> val) list"

definition from_ast :: "val \<Rightarrow> path" where
  "from_ast ast = [(Root, ast)]"

fun getValue :: "path \<Rightarrow> val" where
  "getValue [] = Undefined"
| "getValue ((k, v) # p) = v"

fun getName :: "path \<Rightarrow> name" where
  "getName [] = Root"
| "getName ((k, v) # p) = k"

text \<open>\<open>path.call(f, name1, name2, ...)\<close> runs \<open>f\<close> on the path \<open>descend\<close> gives.\<close>

fun descend :: "path \<Rightarrow> string list \<Rightarrow> error + path" where
  "descend p [] = Inr p"
| "descend p (f # fs) = bindE (get (getValue p) f) (\<lambda>v. descend ((Field f, v) # p) fs)"

definition call :: "(path \<Rightarrow> error + 'a) \<Rightarrow> path \<Rightarrow> string list \<Rightarrow> error + 'a" where
  "call f p names = bindE (descend p names) f"

text \<open>
  \<open>path.each\<close> and \<open>path.map\<close> run over \<open>i < value.length\<close> with \<open>i in value\<close>: the
  elements of an array; nothing for a value without a \<open>length\<close> (an object here has no
  index-named properties); a \<open>TypeError\<close> on \<open>undefined\<close> and \<open>null\<close>, and on a
  non-empty string, where \<open>in\<close> throws.
\<close>

fun elems :: "val \<Rightarrow> error + val list" where
  "elems Undefined = Inl TypeError"
| "elems Null = Inl TypeError"
| "elems (Arr xs) = Inr xs"
| "elems (Str s) = (if s = [] then Inr [] else Inl TypeError)"
| "elems v = Inr []"

definition children :: "path \<Rightarrow> val list \<Rightarrow> path list" where
  "children p xs = map (\<lambda>(i, x). (Index i, x) # p) (enumerate 0 xs)"

definition map_path :: "(path \<Rightarrow> error + 'a) \<Rightarrow> path \<Rightarrow> string list \<Rightarrow> error + 'a list" where
  "map_path f p names =
     bindE (descend p names) (\<lambda>q. bindE (elems (getValue q)) (\<lambda>xs. mapE f (children q xs)))"

text \<open>
  \<open>namedTypes.T.check(v)\<close> of ast-types, for a type \<open>T\<close> without subtypes: \<open>v\<close> is an
  object whose \<open>type\<close> is \<open>T\<close>. \<open>namedTypes.Node.check\<close> holds of the objects that have a
  \<open>type\<close>. \<open>getParentNode\<close> is the nearest node strictly above the current value.
\<close>

fun hasType :: "val \<Rightarrow> string \<Rightarrow> bool" where
  "hasType (Obj fs) t = (map_of fs ''type'' = Some (Str (js t)))"
| "hasType v t = False"

fun isNode :: "val \<Rightarrow> bool" where
  "isNode (Obj fs) = (case map_of fs ''type'' of Some (Str t) \<Rightarrow> True | _ \<Rightarrow> False)"
| "isNode v = False"

fun firstNode :: "path \<Rightarrow> val" where
  "firstNode [] = Null"
| "firstNode ((k, v) # p) = (if isNode v then v else firstNode p)"

definition getParentNode :: "path \<Rightarrow> val" where
  "getParentNode p = firstNode (tl p)"

section \<open>The template dialect: \<open>printer-handlebars.js\<close>\<close>

text \<open>
  The white space and line terminators of ECMA-262: what \<open>\s\<close> matches and what
  \<open>trim\<close> strips.
\<close>

definition isWhiteSpace :: "16 word \<Rightarrow> bool" where
  "isWhiteSpace c =
     (c = 0x09 \<or> c = 0x0A \<or> c = 0x0B \<or> c = 0x0C \<or> c = 0x0D \<or> c = 0x20 \<or> c = 0xA0
      \<or> c = 0x1680 \<or> (0x2000 \<le> c \<and> c \<le> 0x200A) \<or> c = 0x2028 \<or> c = 0x2029
      \<or> c = 0x202F \<or> c = 0x205F \<or> c = 0x3000 \<or> c = 0xFEFF)"

definition trim :: "jsstring \<Rightarrow> jsstring" where
  "trim s = rev (dropWhile isWhiteSpace (rev (dropWhile isWhiteSpace s)))"

text \<open>\<open>s.replace(/\s+/g, " ")\<close>\<close>

function collapseWhiteSpace :: "jsstring \<Rightarrow> jsstring" where
  "collapseWhiteSpace [] = []"
| "collapseWhiteSpace (c # cs) =
     (if isWhiteSpace c then 0x20 # collapseWhiteSpace (dropWhile isWhiteSpace cs)
      else c # collapseWhiteSpace cs)"
  by pat_completeness auto
termination
  by (relation "measure length") (auto intro: le_imp_less_Suc length_dropWhile_le)

text \<open>\<open>text.includes(pat)\<close>\<close>

fun includes_str :: "jsstring \<Rightarrow> jsstring \<Rightarrow> bool" where
  "includes_str [] pat = (pat = [])"
| "includes_str (c # cs) pat = (take (length pat) (c # cs) = pat \<or> includes_str cs pat)"

text \<open>
  \<open>voidTags[k] ? ... : ...\<close>: the lookup is truthy for the fourteen own keys of the
  table and for the names the object literal inherits from \<open>Object.prototype\<close>. The key
  is the string of \<open>k\<close>: a string itself, the element of a one-element array; the
  strings of the other values name no property.
\<close>

definition voidTagNames :: "string list" where
  "voidTagNames =
     [''area'', ''base'', ''br'', ''col'', ''embed'', ''hr'', ''img'', ''input'', ''link'',
      ''meta'', ''param'', ''source'', ''track'', ''wbr'']"

definition objectPrototypeNames :: "string list" where
  "objectPrototypeNames =
     [''constructor'', ''hasOwnProperty'', ''isPrototypeOf'', ''propertyIsEnumerable'',
      ''toLocaleString'', ''toString'', ''valueOf'', ''__proto__'', ''__defineGetter__'',
      ''__defineSetter__'', ''__lookupGetter__'', ''__lookupSetter__'']"

fun voidTags :: "val \<Rightarrow> bool" where
  "voidTags (Str s) = (s \<in> set (map js voidTagNames) \<or> s \<in> set (map js objectPrototypeNames))"
| "voidTags (Arr [x]) = voidTags x"
| "voidTags v = False"

text \<open>
  \<open>a === b\<close> on the values of a tree: two objects or arrays met at two places are two
  objects, and \<open>NaN\<close> equals nothing.
\<close>

fun strictEq :: "val \<Rightarrow> val \<Rightarrow> bool" where
  "strictEq NaN b = False"
| "strictEq (Arr xs) b = False"
| "strictEq (Obj fs) b = False"
| "strictEq a b = (a = b)"

text \<open>A method of \<open>String.prototype\<close> called on a value: a \<open>TypeError\<close> unless it is a string.\<close>

fun asString :: "val \<Rightarrow> error + jsstring" where
  "asString (Str s) = Inr s"
| "asString v = Inl TypeError"

definition printChildren :: "string \<Rightarrow> path \<Rightarrow> (path \<Rightarrow> error + doc) \<Rightarrow> error + doc" where
  "printChildren childProp path print =
     bindE (map_path print path [childProp]) (\<lambda>children. Inr (concat_doc children))"

definition printAttributes :: "path \<Rightarrow> (path \<Rightarrow> error + doc) \<Rightarrow> error + doc" where
  "printAttributes path print =
     bindE (get (getValue path) ''attributes'') (\<lambda>attributes.
     bindE (get attributes ''length'') (\<lambda>len.
     bindE (map_path print path [''attributes'']) (\<lambda>printed.
       Inr (concat_doc [Text (if truthy len then js '' '' else []),
                        indent_hbs (join line printed)]))))"

text \<open>The rules of \<open>printPath\<close>, one definition for each \<open>case\<close> of its \<open>switch\<close>.\<close>

definition print_AttrNode :: "val \<Rightarrow> error + doc" where
  "print_AttrNode n =
     bindE (get n ''value'') (\<lambda>value.
     bindE (get value ''type'') (\<lambda>vtype.
       if strictEq vtype (Str (js ''TextNode'')) then
         bindE (get value ''loc'') (\<lambda>loc.
         bindE (get loc ''start'') (\<lambda>start.
         bindE (get start ''line'') (\<lambda>startLine.
         bindE (get loc ''end'') (\<lambda>end.
         bindE (get end ''line'') (\<lambda>endLine.
         bindE (get n ''name'') (\<lambda>name.
           if strictEq startLine endLine then
             bindE (get start ''column'') (\<lambda>startColumn.
             bindE (get end ''column'') (\<lambda>endColumn.
               if strictEq startColumn endColumn then Inr (docOf name)
               else bindE (get value ''chars'') (\<lambda>chars.
                 Inr (concat_doc [docOf name, Text (js ''=\"''), docOf chars, Text (js ''\"'')]))))
           else bindE (get value ''chars'') (\<lambda>chars.
             Inr (concat_doc [docOf name, Text (js ''=\"''), docOf chars, Text (js ''\"'')]))))))))
       else Inl (UnsupportedHandlebarsAttributeType vtype)))"

definition print_ElementNode :: "(path \<Rightarrow> error + doc) \<Rightarrow> path \<Rightarrow> error + doc" where
  "print_ElementNode print path =
     (let n = getValue path in
      bindE (get n ''name'') (\<lambda>name.
      let selfClose = (if voidTags name then js ''>'' else js '' />'') in
      bindE (printChildren ''children'' path print) (\<lambda>children.
      bindE (get n ''tag'') (\<lambda>tag.
      bindE (printAttributes path print) (\<lambda>attributes.
      bindE (get n ''children'') (\<lambda>nchildren.
      bindE (get nchildren ''length'') (\<lambda>len.
        Inr (group (concat_doc
          [Text (js ''<''),
           docOf tag,
           attributes,
           Text (if truthy len then js ''>'' else selfClose),
           indent_hbs children,
           if truthy len then concat_doc [softline, Text (js ''</''), docOf tag, Text (js ''>'')]
           else hardline])))))))))"

definition print_TextNode :: "val \<Rightarrow> error + doc" where
  "print_TextNode n =
     bindE (get n ''chars'') (\<lambda>chars.
     bindE (asString chars) (\<lambda>s. Inr (Text (trim (collapseWhiteSpace s)))))"

definition print_MustacheStatement :: "(path \<Rightarrow> error + doc) \<Rightarrow> path \<Rightarrow> error + doc" where
  "print_MustacheStatement print path =
     bindE (call print path [''path'']) (\<lambda>p.
       Inr (group (concat_doc [Text (js ''{{''), p, Text (js ''}}'')])))"

definition print_MustacheCommentStatement :: "val \<Rightarrow> error + doc" where
  "print_MustacheCommentStatement n =
     bindE (get n ''value'') (\<lambda>v.
     bindE (asString v) (\<lambda>s.
       let text = trim s;
           hasBraces = (includes_str text (js ''{{'') \<or> includes_str text (js ''}}''));
           open = (if hasBraces then js ''{{!--'' else js ''{{!'');
           close = (if hasBraces then js ''--}}'' else js ''}}'')
       in Inr (group (concat_doc [Text open, line, Text text, line, Text close]))))"

text \<open>
  \<open>join(sep, arr)\<close> of \<open>./doc-builders\<close> reads \<open>arr[i]\<close> for \<open>i < arr.length\<close>: the
  elements of an array, the characters of a string.
\<close>

fun items :: "val \<Rightarrow> error + val list" where
  "items Undefined = Inl TypeError"
| "items Null = Inl TypeError"
| "items (Arr xs) = Inr xs"
| "items (Str s) = Inr (map (\<lambda>c. Str [c]) s)"
| "items v = Inr []"

definition print_PathExpression :: "val \<Rightarrow> error + doc" where
  "print_PathExpression n =
     bindE (get n ''parts'') (\<lambda>parts.
     bindE (items parts) (\<lambda>xs. Inr (join (Text (js ''.'')) (map docOf xs))))"

text \<open>
  \<open>printPath(path, options, print)\<close>; \<open>options\<close> is not read. A \<open>switch\<close> compares
  with \<open>===\<close>, here against strings.
\<close>

definition printPath :: "path \<Rightarrow> (path \<Rightarrow> error + doc) \<Rightarrow> error + doc" where
  "printPath path print =
     (let n = getValue path in
      if \<not> truthy n then Inr (Text [])
      else case n of
        Str s \<Rightarrow> Inr (Text s)
      | _ \<Rightarrow>
        bindE (get n ''type'') (\<lambda>t.
          if t = Str (js ''Program'') then printChildren ''body'' path print
          else if t = Str (js ''AttrNode'') then print_AttrNode n
          else if t = Str (js ''ElementNode'') then print_ElementNode print path
          else if t = Str (js ''TextNode'') then print_TextNode n
          else if t = Str (js ''MustacheStatement'') then print_MustacheStatement print path
          else if t = Str (js ''MustacheCommentStatement'') then print_MustacheCommentStatement n
          else if t = Str (js ''PathExpression'') then print_PathExpression n
          else Inl (UnsupportedHandlebarsType t)))"

text \<open>The smaller \<open>printPath\<close> of the unnamed source file: two rules only.\<close>

definition printPath_part_000 :: "path \<Rightarrow> (path \<Rightarrow> error + doc) \<Rightarrow> error + doc" where
  "printPath_part_000 path print =
     (let n = getValue path in
      if \<not> truthy n then Inr (Text [])
      else case n of
        Str s \<Rightarrow> Inr (Text s)
      | _ \<Rightarrow>
        bindE (get n ''type'') (\<lambda>t.
          if t = Str (js ''Program'') then printChildren ''body'' path print
          else if t = Str (js ''MustacheCommentStatement'') then print_MustacheCommentStatement n
          else Inl (UnsupportedHandlebarsType t)))"

text \<open>The kinds \<open>printPath\<close> has a rule for.\<close>

definition handlebarsTypes :: "string list" where
  "handlebarsTypes =
     [''Program'', ''AttrNode'', ''ElementNode'', ''TextNode'', ''MustacheStatement'',
      ''MustacheCommentStatement'', ''PathExpression'']"

text \<open>
  The two shapes an element takes: without children, \<open><tag attrs>\<close> or \<open><tag attrs />\<close>
  (\<open>mark\<close> is \<open>>\<close> or \<open> />\<close>) and a hard line; with children, the opening tag, the
  children indented, a soft line and the closing tag.
\<close>

definition selfClosingElement :: "jsstring \<Rightarrow> doc \<Rightarrow> doc \<Rightarrow> doc" where
  "selfClosingElement mark tag attrs =
     group (concat_doc [Text (js ''<''), tag, attrs, Text mark, indent_hbs (concat_doc []), hardline])"

definition closedElement :: "doc \<Rightarrow> doc \<Rightarrow> doc list \<Rightarrow> doc" where
  "closedElement tag attrs ds =
     group (concat_doc [Text (js ''<''), tag, attrs, Text (js ''>''), indent_hbs (concat_doc ds),
       concat_doc [softline, Text (js ''</''), tag, Text (js ''>'')]])"

definition selfClosingForm :: "doc \<Rightarrow> bool" where
  "selfClosingForm d =
     (\<exists>tag attrs. d = selfClosingElement (js ''>'') tag attrs
        \<or> d = selfClosingElement (js '' />'') tag attrs)"

definition attributesDoc :: "val list \<Rightarrow> doc list \<Rightarrow> doc" where
  "attributesDoc attrs printed =
     concat_doc [Text (if attrs = [] then [] else js '' ''), indent_hbs (join line printed)]"

text \<open>A \<open>br\<close> element as the parser gives it, with a text child, and one with a \<open>name\<close> too.\<close>

definition brNode :: val where
  "brNode =
     Obj [(''type'', Str (js ''ElementNode'')), (''tag'', Str (js ''br'')),
          (''attributes'', Arr []),
          (''children'', Arr [Obj [(''type'', Str (js ''TextNode'')), (''chars'', Str (js ''x''))]])]"

definition brNamedNode :: val where
  "brNamedNode =
     Obj [(''type'', Str (js ''ElementNode'')), (''name'', Str (js ''br'')), (''tag'', Str (js ''br'')),
          (''attributes'', Arr []),
          (''children'', Arr [Obj [(''type'', Str (js ''TextNode'')), (''chars'', Str (js ''x''))]])]"

definition imgNode :: val where
  "imgNode =
     Obj [(''type'', Str (js ''ElementNode'')), (''tag'', Str (js ''img'')),
          (''attributes'', Arr []), (''children'', Arr [])]"

text \<open>A \<open>print\<close> for the nodes below an element whose children are leaves.\<close>

definition printLeaf :: "path \<Rightarrow> error + doc" where
  "printLeaf p = printPath p (\<lambda>q. Inl TypeError)"

section \<open>The JavaScript printer: \<open>printer.js\<close>\<close>

text \<open>The options the rules below read.\<close>

record options =
  tabWidth :: nat
  quote :: val
  objectCurlySpacing :: val

text \<open>
  \<open>v + " "\<close> and the like need the string of \<open>v\<close>. Integers are written in decimal
  (the exponent form JavaScript uses from \<open>10^21\<close> on is not modelled).
\<close>

fun decimal :: "nat \<Rightarrow> jsstring" where
  "decimal n =
     (if n < 10 then [of_nat (48 + n)] else decimal (n div 10) @ [of_nat (48 + n mod 10)])"

fun joinStrings :: "jsstring \<Rightarrow> jsstring list \<Rightarrow> jsstring" where
  "joinStrings sep [] = []"
| "joinStrings sep [s] = s"
| "joinStrings sep (s # t # ss) = s @ sep @ joinStrings sep (t # ss)"

fun toString :: "val \<Rightarrow> jsstring" where
  "toString Undefined = js ''undefined''"
| "toString Null = js ''null''"
| "toString (Bool b) = (if b then js ''true'' else js ''false'')"
| "toString (Num n) = (if n < 0 then 0x2D # decimal (nat (- n)) else decimal (nat n))"
| "toString NaN = js ''NaN''"
| "toString (Str s) = s"
| "toString (Arr xs) =
     joinStrings (js '','')
       (map (\<lambda>x. if x = Undefined \<or> x = Null then [] else toString x) xs)"
| "toString (Obj fs) = js ''[object Object]''"

text \<open>
  \<open>v > 0\<close>, for the lengths and indices the source compares (a string that reads as
  a number is not modelled: the \<open>length\<close> of an array or a string is a number).
\<close>

fun positive :: "val \<Rightarrow> bool" where
  "positive (Num n) = (0 < n)"
| "positive (Bool b) = b"
| "positive v = False"

text \<open>
  The \<open>case\<close> labels of the \<open>switch\<close> in \<open>genericPrintNoParens\<close>. Those of
  \<open>unhandledTypes\<close> stand directly before \<open>default\<close> and fall through to its \<open>throw\<close>.
  The rule of each kind in \<open>embeddedTypes\<close> is translated below; the rules of
  \<open>otherTypes\<close> are not, and \<open>genericPrintNoParens\<close> takes them as its parameter
  \<open>otherRule\<close>.
\<close>

definition embeddedTypes :: "string list" where
  "embeddedTypes =
     [''ImportDeclaration'', ''CallExpression'', ''ObjectExpression'', ''ObjectPattern'',
      ''ObjectTypeAnnotation'', ''BooleanLiteral'', ''NumericLiteral'',
      ''StringLiteral'', ''Literal'', ''VariableDeclaration'']"

definition otherTypes :: "string list" where
  "otherTypes =
     [''File'', ''Program'', ''Noop'', ''EmptyStatement'', ''ExpressionStatement'',
      ''ParenthesizedExpression'', ''AssignmentExpression'', ''BinaryExpression'',
      ''LogicalExpression'', ''AssignmentPattern'', ''MemberExpression'',
      ''MetaProperty'', ''BindExpression'', ''Path'', ''Identifier'', ''SpreadElement'',
      ''SpreadElementPattern'', ''RestProperty'', ''SpreadProperty'',
      ''SpreadPropertyPattern'', ''RestElement'', ''FunctionDeclaration'',
      ''FunctionExpression'', ''ArrowFunctionExpression'', ''MethodDefinition'',
      ''YieldExpression'', ''AwaitExpression'', ''ModuleDeclaration'',
      ''ImportSpecifier'', ''ExportSpecifier'', ''ExportBatchSpecifier'',
      ''ImportNamespaceSpecifier'', ''ImportDefaultSpecifier'', ''ExportDeclaration'',
      ''ExportDefaultDeclaration'', ''ExportNamedDeclaration'', ''ExportAllDeclaration'',
      ''ExportNamespaceSpecifier'', ''ExportDefaultSpecifier'', ''BlockStatement'',
      ''ReturnStatement'', ''PropertyPattern'', ''ObjectProperty'', ''Property'',
      ''ClassMethod'', ''ObjectMethod'', ''Decorator'', ''ArrayExpression'',
      ''ArrayPattern'', ''SequenceExpression'', ''ThisExpression'', ''Super'',
      ''NullLiteral'', ''RegExpLiteral'', ''Directive'', ''DirectiveLiteral'',
      ''ModuleSpecifier'', ''UnaryExpression'', ''UpdateExpression'',
      ''ConditionalExpression'', ''NewExpression'', ''VariableDeclarator'',
      ''WithStatement'', ''IfStatement'', ''ForStatement'', ''WhileStatement'',
      ''ForInStatement'', ''ForOfStatement'', ''ForAwaitStatement'',
      ''DoWhileStatement'', ''DoExpression'', ''BreakStatement'', ''ContinueStatement'',
      ''LabeledStatement'', ''TryStatement'', ''CatchClause'', ''ThrowStatement'',
      ''SwitchStatement'', ''SwitchCase'', ''DebuggerStatement'', ''JSXAttribute'',
      ''JSXIdentifier'', ''JSXNamespacedName'', ''JSXMemberExpression'',
      ''JSXSpreadAttribute'', ''JSXExpressionContainer'', ''JSXElement'',
      ''JSXOpeningElement'', ''JSXClosingElement'', ''JSXText'', ''JSXEmptyExpression'',
      ''TypeAnnotatedIdentifier'', ''ClassBody'', ''ClassPropertyDefinition'',
      ''ClassProperty'', ''ClassDeclaration'', ''ClassExpression'', ''TemplateElement'',
      ''TemplateLiteral'', ''TaggedTemplateExpression'', ''Node'', ''Printable'',
      ''SourceLocation'', ''Position'', ''Statement'', ''Function'', ''Pattern'',
      ''Expression'', ''Declaration'', ''Specifier'', ''NamedSpecifier'', ''Comment'',
      ''MemberTypeAnnotation'', ''Type'', ''CommentBlock'', ''Block'', ''CommentLine'',
      ''Line'', ''TypeAnnotation'', ''TupleTypeAnnotation'', ''ExistentialTypeParam'',
      ''ExistsTypeAnnotation'', ''EmptyTypeAnnotation'', ''AnyTypeAnnotation'',
      ''MixedTypeAnnotation'', ''ArrayTypeAnnotation'', ''BooleanTypeAnnotation'',
      ''NumericLiteralTypeAnnotation'', ''BooleanLiteralTypeAnnotation'',
      ''DeclareClass'', ''DeclareFunction'', ''DeclareModule'', ''DeclareModuleExports'',
      ''DeclareVariable'', ''DeclareExportAllDeclaration'', ''DeclareExportDeclaration'',
      ''FunctionTypeAnnotation'', ''FunctionTypeParam'', ''GenericTypeAnnotation'',
      ''DeclareInterface'', ''InterfaceDeclaration'', ''ClassImplements'',
      ''InterfaceExtends'', ''IntersectionTypeAnnotation'', ''NullableTypeAnnotation'',
      ''NullLiteralTypeAnnotation'', ''ThisTypeAnnotation'', ''NumberTypeAnnotation'',
      ''ObjectTypeCallProperty'', ''ObjectTypeIndexer'', ''ObjectTypeProperty'',
      ''QualifiedTypeIdentifier'', ''StringLiteralTypeAnnotation'',
      ''NumberLiteralTypeAnnotation'', ''StringTypeAnnotation'', ''DeclareTypeAlias'',
      ''TypeAlias'', ''TypeCastExpression'', ''TypeParameterDeclaration'',
      ''TypeParameterInstantiation'', ''TypeParameter'', ''TypeofTypeAnnotation'',
      ''UnionTypeAnnotation'', ''VoidTypeAnnotation'', ''NullTypeAnnotation'',
      ''InferredPredicate'', ''DeclaredPredicate'']"

definition unhandledTypes :: "string list" where
  "unhandledTypes =
     [''ClassHeritage'', ''ComprehensionBlock'', ''ComprehensionExpression'', ''Glob'',
      ''GeneratorExpression'', ''LetStatement'', ''LetExpression'', ''GraphExpression'',
      ''GraphIndexExpression'', ''XMLDefaultDeclaration'', ''XMLAnyName'',
      ''XMLQualifiedIdentifier'', ''XMLFunctionQualifiedIdentifier'',
      ''XMLAttributeSelector'', ''XMLFilterExpression'', ''XML'', ''XMLElement'',
      ''XMLList'', ''XMLEscape'', ''XMLText'', ''XMLStartTag'', ''XMLEndTag'',
      ''XMLPointTag'', ''XMLName'', ''XMLAttribute'', ''XMLCdata'', ''XMLComment'',
      ''XMLProcessingInstruction'']"

definition ruledTypes :: "string list" where
  "ruledTypes = embeddedTypes @ otherTypes"

text \<open>
  ast-types is not under src/. Every type the source names is taken to be defined, so
  that \<open>namedTypes.T && namedTypes.T.check(v)\<close> is \<open>namedTypes.T.check(v)\<close>, which is
  \<open>hasType v T\<close>; \<open>namedTypes.T.assert(v)\<close> throws unless the check holds.
\<close>

definition assertType :: "val \<Rightarrow> string \<Rightarrow> error + unit" where
  "assertType v t = (if hasType v t then Inr () else Inl (NotMatchType t))"

text \<open>
  The body of the callback that \<open>path.each\<close> runs on each specifier of an import
  declaration, and the loop. The state is \<open>foundImportSpecifier\<close> and \<open>parts\<close>.
\<close>

definition importSpecifier ::
  "options \<Rightarrow> (path \<Rightarrow> error + doc) \<Rightarrow> path \<Rightarrow> bool \<times> doc list \<Rightarrow> error + bool \<times> doc list"
where
  "importSpecifier options print specifierPath st =
     (let foundImportSpecifier = fst st;
          parts = snd st;
          i = getName specifierPath;
          parts = (if (case i of Index k \<Rightarrow> 0 < k | _ \<Rightarrow> False)
                   then parts @ [Text (js '', '')] else parts);
          value = getValue specifierPath
      in bindE
           (if hasType value ''ImportDefaultSpecifier'' \<or> hasType value ''ImportNamespaceSpecifier''
            then (if foundImportSpecifier = False then Inr (foundImportSpecifier, parts)
                  else Inl AssertionError)
            else bindE (assertType value ''ImportSpecifier'') (\<lambda>u.
              if \<not> foundImportSpecifier
              then Inr (True, parts @ [Text (if truthy (objectCurlySpacing options)
                                              then js ''{ '' else js ''{'')])
              else Inr (foundImportSpecifier, parts)))
           (\<lambda>(found, parts).
              bindE (print specifierPath) (\<lambda>d. Inr (found, parts @ [d]))))"

fun importSpecifiers ::
  "options \<Rightarrow> (path \<Rightarrow> error + doc) \<Rightarrow> path list \<Rightarrow> bool \<times> doc list \<Rightarrow> error + bool \<times> doc list"
where
  "importSpecifiers options print [] st = Inr st"
| "importSpecifiers options print (sp # sps) st =
     bindE (importSpecifier options print sp st) (importSpecifiers options print sps)"

definition print_ImportDeclaration ::
  "path \<Rightarrow> options \<Rightarrow> (path \<Rightarrow> error + doc) \<Rightarrow> error + doc"
where
  "print_ImportDeclaration path options print =
     (let n = getValue path in
      bindE (get n ''importKind'') (\<lambda>importKind.
      let parts = [Text (js ''import '')];
          parts = (if truthy importKind \<and> \<not> strictEq importKind (Str (js ''value''))
                   then parts @ [Text (toString importKind @ js '' '')] else parts)
      in
      bindE (get n ''specifiers'') (\<lambda>specifiers.
      bindE (if truthy specifiers then get specifiers ''length'' else Inr Undefined) (\<lambda>len.
      bindE
        (if truthy specifiers \<and> positive len then
           bindE (elems specifiers) (\<lambda>xs.
           bindE (importSpecifiers options print
                    (children ((Field ''specifiers'', specifiers) # path) xs) (False, parts))
             (\<lambda>(foundImportSpecifier, parts).
                let parts = (if foundImportSpecifier
                             then parts @ [Text (if truthy (objectCurlySpacing options)
                                                 then js '' }'' else js ''}'')]
                             else parts)
                in Inr (parts @ [Text (js '' from '')])))
         else Inr parts)
        (\<lambda>parts.
           bindE (call print path [''source'']) (\<lambda>source.
             Inr (concat_doc (parts @ [source, Text (js '';'')]))))))))"

text \<open>
  \<open>printArgumentsList\<close>. \<open>getFirstString\<close> of \<open>./pp\<close> is not under src/ and is a
  parameter. \<open>trailingComma\<close> is computed and not used.
\<close>

definition printArgumentsList ::
  "(doc \<Rightarrow> val) \<Rightarrow> path \<Rightarrow> options \<Rightarrow> (path \<Rightarrow> error + doc) \<Rightarrow> error + doc"
where
  "printArgumentsList getFirstString path options print =
     bindE (map_path print path [''arguments'']) (\<lambda>printed.
       let args =
         (if length printed = 0 then Text []
          else if length printed = 1 \<and> strictEq (getFirstString (hd printed)) (Str (js ''{''))
          then hd printed
          else concat_doc
                 [indent (tabWidth options)
                    (concat_doc [softline, join (concat_doc [Text (js '',''), line]) printed]),
                  softline])
       in Inr (multilineGroup (concat_doc [Text (js ''(''), args, Text (js '')'')])))"

definition print_CallExpression ::
  "(doc \<Rightarrow> val) \<Rightarrow> path \<Rightarrow> options \<Rightarrow> (path \<Rightarrow> error + doc) \<Rightarrow> error + doc"
where
  "print_CallExpression getFirstString path options print =
     bindE (call print path [''callee'']) (\<lambda>callee.
     bindE (printArgumentsList getFirstString path options print) (\<lambda>arguments.
       Inr (concat_doc [callee, arguments])))"

text \<open>
  The rule of \<open>ObjectExpression\<close>, \<open>ObjectPattern\<close> and \<open>ObjectTypeAnnotation\<close>.
  \<open>objectProps\<close> is the \<open>fields.forEach\<close> loop that fills \<open>props\<close>.
\<close>

fun objectProps :: "path \<Rightarrow> (path \<Rightarrow> error + doc) \<Rightarrow> string list \<Rightarrow> error + doc list" where
  "objectProps path print [] = Inr []"
| "objectProps path print (field # rest) =
     bindE (map_path (\<lambda>childPath. bindE (print childPath) (\<lambda>d. Inr (group d))) path [field])
       (\<lambda>props. bindE (objectProps path print rest) (\<lambda>more. Inr (props @ more)))"

definition print_Object :: "path \<Rightarrow> options \<Rightarrow> (path \<Rightarrow> error + doc) \<Rightarrow> error + doc" where
  "print_Object path options print =
     (let n = getValue path in
      bindE (get n ''type'') (\<lambda>t.
      bindE (get n ''exact'') (\<lambda>exact.
      let isTypeAnnotation = strictEq t (Str (js ''ObjectTypeAnnotation''));
          separator = (if isTypeAnnotation then js '';'' else js '','');
          leftBrace = (if truthy exact then js ''{|'' else js ''{'');
          rightBrace = (if truthy exact then js ''|}'' else js ''}'');
          fieldNames = (if isTypeAnnotation then [''indexers'', ''callProperties''] else [])
                       @ [''properties'']
      in
      bindE (objectProps path print fieldNames) (\<lambda>props.
        if length props = 0 then Inr (Text (js ''{}''))
        else
          bindE (call print path [''typeAnnotation'']) (\<lambda>typeAnnotation.
            Inr (multilineGroup (concat_doc
              [Text leftBrace,
               indent (tabWidth options)
                 (concat_doc [line, join (concat_doc [Text separator, line]) props]),
               line,
               Text rightBrace,
               typeAnnotation])))))))"

text \<open>The rule of the literals, which prints a string value through \<open>nodeStr\<close>.\<close>

definition print_Literal :: "path \<Rightarrow> options \<Rightarrow> error + doc" where
  "print_Literal path options =
     bindE (get (getValue path) ''value'') (\<lambda>v.
       case v of
         Str s \<Rightarrow> bindE (nodeStr v (quote options)) (\<lambda>str. Inr (Text str))
       | _ \<Rightarrow> Inr (fromString v))"

text \<open>The rule of \<open>VariableDeclaration\<close>. \<open>printed[0]\<close> of an empty array is \<open>undefined\<close>.\<close>

definition print_VariableDeclaration ::
  "path \<Rightarrow> options \<Rightarrow> (path \<Rightarrow> error + doc) \<Rightarrow> error + doc"
where
  "print_VariableDeclaration path options print =
     (let n = getValue path in
      bindE (map_path print path [''declarations'']) (\<lambda>printed.
      bindE (get n ''kind'') (\<lambda>kind.
      let parts =
            [docOf kind,
             Text (js '' ''),
             (case printed of [] \<Rightarrow> Opaque Undefined | p # ps \<Rightarrow> p),
             indent (tabWidth options)
               (concat_doc (map (\<lambda>p. concat_doc [Text (js '',''), line, p]) (drop 1 printed)))];
          parentNode = getParentNode path;
          parts =
            (if \<not> hasType parentNode ''ForStatement''
                \<and> \<not> hasType parentNode ''ForInStatement''
                \<and> \<not> hasType parentNode ''ForOfStatement''
                \<and> \<not> hasType parentNode ''ForAwaitStatement''
             then parts @ [Text (js '';'')] else parts)
      in Inr (multilineGroup (concat_doc parts)))))"

text \<open>
  \<open>genericPrintNoParens(path, options, print)\<close>. A value that is falsy or a string is
  printed before the \<open>switch\<close>; the \<open>switch\<close> compares \<open>n.type\<close> with its labels and
  throws in \<open>default\<close>.
\<close>

definition genericPrintNoParens ::
  "(val \<Rightarrow> path \<Rightarrow> options \<Rightarrow> (path \<Rightarrow> error + doc) \<Rightarrow> error + doc) \<Rightarrow> (doc \<Rightarrow> val)
    \<Rightarrow> path \<Rightarrow> options \<Rightarrow> (path \<Rightarrow> error + doc) \<Rightarrow> error + doc"
where
  "genericPrintNoParens otherRule getFirstString path options print =
     (let n = getValue path in
      if \<not> truthy n then Inr (fromString (Str []))
      else case n of
        Str s \<Rightarrow> Inr (fromString n)
      | _ \<Rightarrow>
        bindE (get n ''type'') (\<lambda>t.
          if t = Str (js ''ImportDeclaration'') then print_ImportDeclaration path options print
          else if t = Str (js ''CallExpression'')
            then print_CallExpression getFirstString path options print
          else if t = Str (js ''ObjectExpression'') \<or> t = Str (js ''ObjectPattern'')
                  \<or> t = Str (js ''ObjectTypeAnnotation'')
            then print_Object path options print
          else if t = Str (js ''BooleanLiteral'') \<or> t = Str (js ''NumericLiteral'')
                  \<or> t = Str (js ''StringLiteral'') \<or> t = Str (js ''Literal'')
            then print_Literal path options
          else if t = Str (js ''VariableDeclaration'')
            then print_VariableDeclaration path options print
          else if t \<in> set (map (\<lambda>x. Str (js x)) otherTypes)
            then otherRule t path options print
          else Inl (UnknownType t)))"

text \<open>
  \<open>PrintResult\<close> and the two methods of \<open>Printer\<close>. The result has a \<open>map\<close> property
  only when a source map was given. What the methods call outside src/ (the printing
  of the root, \<open>lines.toString\<close>, \<open>util.composeSourceMaps\<close>, \<open>pp.print\<close>) is a parameter.
\<close>

record printResult =
  code :: jsstring
  map_of_result :: "val option"

definition PrintResult :: "val \<Rightarrow> val \<Rightarrow> error + printResult" where
  "PrintResult c sourceMap =
     (case c of
        Str s \<Rightarrow>
          if truthy sourceMap then
            (case sourceMap of
               Obj fs \<Rightarrow> Inr \<lparr>code = s, map_of_result = Some sourceMap\<rparr>
             | _ \<Rightarrow> Inl (NotMatchType ''object''))
          else Inr \<lparr>code = s, map_of_result = None\<rparr>
      | _ \<Rightarrow> Inl (NotMatchType ''string''))"

definition emptyPrintResult :: "error + printResult" where
  "emptyPrintResult = PrintResult (Str []) Undefined"

definition Printer_print ::
  "(path \<Rightarrow> bool \<Rightarrow> error + 'l) \<Rightarrow> ('l \<Rightarrow> error + val) \<Rightarrow> ('l \<Rightarrow> error + val) \<Rightarrow> val
    \<Rightarrow> error + printResult"
where
  "Printer_print print linesToString composeSourceMaps ast =
     (if \<not> truthy ast then emptyPrintResult
      else
        bindE (print (from_ast ast) True) (\<lambda>lines.
        bindE (linesToString lines) (\<lambda>c.
        bindE (composeSourceMaps lines) (\<lambda>m. PrintResult c m))))"

definition Printer_printGenerically ::
  "(path \<Rightarrow> error + doc) \<Rightarrow> (doc \<Rightarrow> error + val) \<Rightarrow> val \<Rightarrow> error + printResult"
where
  "Printer_printGenerically printGenerically pp_print ast =
     (if \<not> truthy ast then emptyPrintResult
      else
        bindE (printGenerically (from_ast ast)) (\<lambda>res.
        bindE (pp_print res) (\<lambda>c. PrintResult c Undefined)))"

text \<open>
  Modelled from the spec: \<open>getFirstString\<close> of \<open>./pp\<close> is not under src/. The spec
  speaks of the string a document begins with: here the first text, in reading order,
  that is not empty, and \<open>null\<close> when there is none. It stands for the parameter
  \<open>getFirstString\<close> where a concrete one is needed.
\<close>

fun firstString :: "doc \<Rightarrow> val" where
  "firstString (Text s) = (if s = [] then Null else Str s)"
| "firstString (Opaque v) = Null"
| "firstString (Concat ds) =
     (case filter (\<lambda>v. v \<noteq> Null) (map firstString ds) of [] \<Rightarrow> Null | v # vs \<Rightarrow> v)"
| "firstString (Line k) = Null"
| "firstString (Indent n d) = firstString d"
| "firstString (Group d b) = firstString d"

text \<open>Inputs for the rules of the JavaScript printer.\<close>

definition noRule :: "val \<Rightarrow> path \<Rightarrow> options \<Rightarrow> (path \<Rightarrow> error + doc) \<Rightarrow> error + doc" where
  "noRule t path options print = Inl TypeError"

definition options0 :: options where
  "options0 = \<lparr>tabWidth = 2, quote = Str (js ''auto''), objectCurlySpacing = Bool True\<rparr>"

definition constDeclaration :: val where
  "constDeclaration =
     Obj [(''type'', Str (js ''VariableDeclaration'')), (''kind'', Str (js ''const'')),
          (''declarations'', Arr [Obj [(''type'', Str (js ''VariableDeclarator''))]])]"

definition forAwaitStatement :: val where
  "forAwaitStatement =
     Obj [(''type'', Str (js ''ForAwaitStatement'')), (''left'', constDeclaration)]"

definition blockStatement :: val where
  "blockStatement =
     Obj [(''type'', Str (js ''BlockStatement'')), (''body'', Arr [constDeclaration])]"

text \<open>
  What the rule of \<open>ImportDeclaration\<close> pushes for its specifiers when the default and
  namespace specifiers come first: they are separated by commas, and the named ones
  follow between one pair of braces.
\<close>

definition isDefaultOrNamespace :: "val \<Rightarrow> bool" where
  "isDefaultOrNamespace v =
     (hasType v ''ImportDefaultSpecifier'' \<or> hasType v ''ImportNamespaceSpecifier'')"

definition isNamed :: "val \<Rightarrow> bool" where
  "isNamed v = hasType v ''ImportSpecifier''"

fun isAssertionFailure :: "error \<Rightarrow> bool" where
  "isAssertionFailure AssertionError = True"
| "isAssertionFailure (NotMatchType t) = True"
| "isAssertionFailure e = False"

definition bracedSpecifiers :: "options \<Rightarrow> doc list \<Rightarrow> doc list \<Rightarrow> doc list" where
  "bracedSpecifiers options defaults named =
     separate (Text (js '', '')) defaults
     @ (if named = [] then []
        else (if defaults = [] then [] else [Text (js '', '')])
          @ [Text (if truthy (objectCurlySpacing options) then js ''{ '' else js ''{'')]
          @ separate (Text (js '', '')) named
          @ [Text (if truthy (objectCurlySpacing options) then js '' }'' else js ''}'')])"

definition importHeader :: "val \<Rightarrow> doc list" where
  "importHeader importKind =
     (if truthy importKind \<and> importKind \<noteq> Str (js ''value'')
      then [Text (js ''import ''), Text (toString importKind @ js '' '')]
      else [Text (js ''import '')])"

text \<open>The loop's own view of the commas: one before every specifier but that of index 0.\<close>

fun commaed :: "nat \<Rightarrow> doc list \<Rightarrow> doc list" where
  "commaed k [] = []"
| "commaed k (d # ds) = (if 0 < k then [Text (js '', '')] else []) @ d # commaed (Suc k) ds"

definition specifierPaths :: "path \<Rightarrow> nat \<Rightarrow> val list \<Rightarrow> path list" where
  "specifierPaths q k xs = map (\<lambda>(i, x). (Index i, x) # q) (enumerate k xs)"



text \<open>The comma the loop pushes before a specifier, and the opening brace.\<close>

definition comma :: "path \<Rightarrow> doc list \<Rightarrow> doc list" where
  "comma sp parts =
     (if (case getName sp of Index k \<Rightarrow> 0 < k | _ \<Rightarrow> False) then parts @ [Text (js '', '')]
      else parts)"

definition leftCurly :: "options \<Rightarrow> doc" where
  "leftCurly options = Text (if truthy (objectCurlySpacing options) then js ''{ '' else js ''{'')"

text \<open>Import declarations: \<open>import x, {x, x} from x;\<close> and one with the default last.\<close>

definition importNode :: "string list \<Rightarrow> val" where
  "importNode kinds =
     Obj [(''type'', Str (js ''ImportDeclaration'')),
          (''specifiers'', Arr (map (\<lambda>t. Obj [(''type'', Str (js t))]) kinds)),
          (''source'', Null)]"

section \<open>The AST as a store: \<open>printMethod\<close>\<close>

text \<open>
  \<open>printMethod\<close> assigns to a field of the node it prints. To follow the assignment the
  objects of the AST live in a store: a value is a primitive, a reference to an object
  of the store, or an array of values, and a function that can read and write the AST
  takes the store and returns the store it leaves, also when it throws.
\<close>

datatype sval =
    SUndefined
  | SNull
  | SBool bool
  | SNum int
  | SNaN
  | SStr jsstring
  | Ref nat
  | ArrOf "sval list"

type_synonym object = "string \<rightharpoonup> sval"

type_synonym store = "nat \<rightharpoonup> object"

type_synonym spath = "(name \<times> sval) list"

type_synonym 'a io = "store \<Rightarrow> (error + 'a) \<times> store"














text \<open>
  \<open>namedTypes.T.check\<close> and \<open>path.getNode()\<close>: the nearest node at or above the current
  value, \<open>null\<close> when there is none.
\<close>

definition shasType :: "store \<Rightarrow> sval \<Rightarrow> string \<Rightarrow> bool" where
  "shasType h v t =
     (case v of
        Ref a \<Rightarrow> (case h a of None \<Rightarrow> False | Some ob \<Rightarrow> ob ''type'' = Some (SStr (js t)))
      | _ \<Rightarrow> False)"

definition sisNode :: "store \<Rightarrow> sval \<Rightarrow> bool" where
  "sisNode h v =
     (case v of
        Ref a \<Rightarrow>
          (case h a of
             None \<Rightarrow> False
           | Some ob \<Rightarrow> (case ob ''type'' of Some (SStr t) \<Rightarrow> True | _ \<Rightarrow> False))
      | _ \<Rightarrow> False)"

fun sfirstNode :: "store \<Rightarrow> spath \<Rightarrow> sval" where
  "sfirstNode h [] = SNull"
| "sfirstNode h ((k, v) # p) = (if sisNode h v then v else sfirstNode h p)"

definition getNode :: "spath \<Rightarrow> sval io" where
  "getNode path h = (Inr (sfirstNode h path), h)"

definition sassertType :: "sval \<Rightarrow> string \<Rightarrow> unit io" where
  "sassertType v t h = (if shasType h v t then (Inr (), h) else (Inl (NotMatchType t), h))"













text \<open>
  What a \<open>print\<close> may change is given as a relation between the store before and the
  store after, reflexive and transitive, so that it holds of any number of steps; a
  computation keeps it when each of its runs is within it.
\<close>

definition isFrame :: "(store \<Rightarrow> store \<Rightarrow> bool) \<Rightarrow> bool" where
  "isFrame R = ((\<forall>h. R h h) \<and> (\<forall>h h' h''. R h h' \<longrightarrow> R h' h'' \<longrightarrow> R h h''))"

definition keeps :: "(store \<Rightarrow> store \<Rightarrow> bool) \<Rightarrow> 'a io \<Rightarrow> bool" where
  "keeps R m = (\<forall>h. R h (snd (m h)))"





section \<open>Quote selection\<close>

lemma swapQuotes_Cons: "swapQuotes (c # cs) = sw c # swapQuotes cs"
  by (simp add: swapQuotes_def sw_def)

lemma swapQuotes_Nil: "swapQuotes [] = []"
  by (simp add: swapQuotes_def)

lemma sw_surrogate:
  "isLeadingSurrogate (sw m) = isLeadingSurrogate m"
  "isTrailingSurrogate (sw m) = isTrailingSurrogate m"
  by (auto simp: sw_def swapQuote_def isLeadingSurrogate_def isTrailingSurrogate_def)

lemma length_unicodeEscape: "length (unicodeEscape c) = 6"
  by (simp add: unicodeEscape_def)

text \<open>
  Swapping the quotes moves the backslash from the double quotes to the single ones and
  leaves every other escape as it is.
\<close>

lemma length_quoteUnit_sw:
  "length (quoteUnit (sw m)) + count_list [m] 0x22 = length (quoteUnit m) + count_list [m] 0x27"
  by (auto simp: sw_def swapQuote_def quoteUnit_def length_unicodeEscape
        isLeadingSurrogate_def isTrailingSurrogate_def)

lemma quotes_Cons:
  "doubleQuotes (c # cs) = count_list [c] 0x22 + doubleQuotes cs"
  "singleQuotes (c # cs) = count_list [c] 0x27 + singleQuotes cs"
  by (simp_all add: doubleQuotes_def singleQuotes_def)

lemma surrogate_no_quote:
  "isLeadingSurrogate c \<Longrightarrow> count_list [c] 0x22 = 0 \<and> count_list [c] 0x27 = 0 \<and> sw c = c"
  "isTrailingSurrogate c \<Longrightarrow> count_list [c] 0x22 = 0 \<and> count_list [c] 0x27 = 0 \<and> sw c = c"
  by (auto simp: sw_def isLeadingSurrogate_def isTrailingSurrogate_def)

lemma length_quoteBody_swap:
  "length (quoteBody (swapQuotes s)) + doubleQuotes s = length (quoteBody s) + singleQuotes s"
proof (induction s rule: quoteBody.induct)
  case 1
  show ?case by (simp add: swapQuotes_Nil doubleQuotes_def singleQuotes_def)
next
  case (2 c)
  show ?case
    using length_quoteUnit_sw [of c]
    by (simp only: swapQuotes_Cons swapQuotes_Nil quoteBody.simps doubleQuotes_def singleQuotes_def)
next
  case (3 c d cs)
  show ?case
  proof (cases "isLeadingSurrogate c \<and> isTrailingSurrogate d")
    case True
    then have "length (quoteBody (swapQuotes cs)) + doubleQuotes cs
        = length (quoteBody cs) + singleQuotes cs"
      using 3(1) by simp
    moreover have "count_list [c] 0x22 = 0 \<and> count_list [c] 0x27 = 0 \<and> sw c = c"
      using True surrogate_no_quote(1) by blast
    moreover have "count_list [d] 0x22 = 0 \<and> count_list [d] 0x27 = 0 \<and> sw d = d"
      using True surrogate_no_quote(2) by blast
    ultimately show ?thesis
      using True by (simp add: swapQuotes_Cons quotes_Cons del: count_list.simps)
  next
    case False
    then have IH: "length (quoteBody (swapQuotes (d # cs))) + doubleQuotes (d # cs)
        = length (quoteBody (d # cs)) + singleQuotes (d # cs)"
      using 3(2) by simp
    have L: "quoteBody (c # d # cs) = quoteUnit c @ quoteBody (d # cs)"
      using False by auto
    have "\<not> (isLeadingSurrogate (sw c) \<and> isTrailingSurrogate (sw d))"
      using False by (simp add: sw_surrogate)
    then have R: "quoteBody (swapQuotes (c # d # cs))
        = quoteUnit (sw c) @ quoteBody (swapQuotes (d # cs))"
      by (auto simp: swapQuotes_Cons)
    have "length (quoteUnit (sw c)) + length (quoteBody (swapQuotes (d # cs)))
          + (count_list [c] 0x22 + doubleQuotes (d # cs))
        = length (quoteUnit c) + length (quoteBody (d # cs))
          + (count_list [c] 0x27 + singleQuotes (d # cs))"
      using IH length_quoteUnit_sw [of c] by linarith
    then show ?thesis
      by (simp only: L R length_append quotes_Cons [of c "d # cs"])
  qed
qed

lemma length_swapQuotes: "length (swapQuotes s) = length s"
  by (simp add: swapQuotes_def)

lemma length_single_double:
  "length (singleQuoted s) + doubleQuotes s = length (doubleQuoted s) + singleQuotes s"
  using length_quoteBody_swap [of s]
  by (simp add: singleQuoted_def doubleQuoted_def JSON_stringify_def length_swapQuotes)

lemma ends_singleQuoted: "hd (singleQuoted s) = 0x27" "last (singleQuoted s) = 0x27"
  by (simp_all add: singleQuoted_def JSON_stringify_def swapQuotes_def swapQuote_def)

lemma ends_doubleQuoted: "hd (doubleQuoted s) = 0x22" "last (doubleQuoted s) = 0x22"
  by (simp_all add: doubleQuoted_def JSON_stringify_def)

lemma nodeStr_auto:
  "nodeStr (Str s) (Str (js ''auto'')) =
     Inr (if length (singleQuoted s) < length (doubleQuoted s)
          then singleQuoted s else doubleQuoted s)"
  by (simp add: nodeStr_def singleQuoted_def doubleQuoted_def Let_def)

lemma nodeStr_auto_choice:
  "\<exists>out. nodeStr (Str s) (Str (js ''auto'')) = Inr out
     \<and> (hd out = 0x27 \<or> hd out = 0x22) \<and> last out = hd out
     \<and> (hd out = 0x27 \<longleftrightarrow> singleQuotes s < doubleQuotes s)
     \<and> (hd out = 0x27 \<longleftrightarrow> length (singleQuoted s) < length (doubleQuoted s))
     \<and> (singleQuotes s = doubleQuotes s \<longrightarrow> hd out = 0x22)
     \<and> out = (if hd out = 0x27 then singleQuoted s else doubleQuoted s)"
  using length_single_double [of s]
  by (auto simp: nodeStr_auto ends_singleQuoted ends_doubleQuoted)

section \<open>Strings\<close>

lemma unat_of_char: "unat (of_char x :: 16 word) = of_char x"
proof -
  have "(of_char x :: 16 word) = of_nat (of_char x)"
    by (simp only: of_nat_of_char)
  moreover have "(of_char x :: nat) < 2 ^ 16"
    by (rule less_trans [OF nat_of_char_less_256]) simp
  ultimately show ?thesis
    by (simp add: unat_of_nat)
qed

lemma of_char_word_inject: "(of_char c :: 16 word) = of_char d \<longleftrightarrow> c = d"
proof
  assume "(of_char c :: 16 word) = of_char d"
  then have "unat (of_char c :: 16 word) = unat (of_char d :: 16 word)"
    by simp
  then show "c = d"
    by (simp add: unat_of_char)
qed simp

lemma js_inject: "js a = js b \<longleftrightarrow> a = b"
  by (metis js_def list.inj_map_strong of_char_word_inject)

section \<open>The template dialect\<close>

text \<open>\<open>includes_str\<close> is the substring test.\<close>

lemma includes_str_iff: "includes_str t pat \<longleftrightarrow> (\<exists>u v. t = u @ pat @ v)"
proof (induction t)
  case Nil
  show ?case by auto
next
  case (Cons c cs)
  show ?case
  proof
    assume "includes_str (c # cs) pat"
    then consider "take (length pat) (c # cs) = pat" | "includes_str cs pat"
      by auto
    then show "\<exists>u v. c # cs = u @ pat @ v"
    proof cases
      case 1
      then have "c # cs = [] @ pat @ drop (length pat) (c # cs)"
        by (metis append_Nil append_take_drop_id)
      then show ?thesis by blast
    next
      case 2
      then obtain u v where "cs = u @ pat @ v"
        using Cons.IH by blast
      then have "c # cs = (c # u) @ pat @ v" by simp
      then show ?thesis by blast
    qed
  next
    assume "\<exists>u v. c # cs = u @ pat @ v"
    then obtain u v where uv: "c # cs = u @ pat @ v" by blast
    show "includes_str (c # cs) pat"
    proof (cases u)
      case Nil
      with uv have "take (length pat) (c # cs) = pat" by simp
      then show ?thesis by simp
    next
      case (Cons a u')
      with uv have "cs = u' @ pat @ v" by simp
      then have "includes_str cs pat" using Cons.IH by blast
      then show ?thesis by simp
    qed
  qed
qed

lemma print_MustacheCommentStatement_Str:
  assumes "map_of fs ''value'' = Some (Str s)"
  shows "print_MustacheCommentStatement (Obj fs) =
     Inr (group (concat_doc
       [Text (if includes_str (trim s) (js ''{{'') \<or> includes_str (trim s) (js ''}}'')
              then js ''{{!--'' else js ''{{!''),
        line, Text (trim s), line,
        Text (if includes_str (trim s) (js ''{{'') \<or> includes_str (trim s) (js ''}}'')
              then js ''--}}'' else js ''}}'')]))"
  using assms by (simp add: print_MustacheCommentStatement_def Let_def)

lemma printPath_MustacheCommentStatement:
  assumes "map_of fs ''type'' = Some (Str (js ''MustacheCommentStatement''))"
  shows "printPath ((k, Obj fs) # p) print = print_MustacheCommentStatement (Obj fs)"
    and "printPath_part_000 ((k, Obj fs) # p) print = print_MustacheCommentStatement (Obj fs)"
  using assms by (simp_all add: printPath_def printPath_part_000_def js_inject)

text \<open>
  C7. A mustache comment node whose \<open>value\<close> is a string prints as the group of an
  opening delimiter, a line, the trimmed text, a line and a closing delimiter, in
  \<open>printer-handlebars.js\<close> and in the smaller printer alike. The delimiters are
  \<open>{{!--\<close> and \<open>--}}\<close> when the trimmed text contains \<open>{{\<close> or \<open>}}\<close>, and \<open>{{!\<close> and
  \<open>}}\<close> when it contains neither.
\<close>

theorem mustache_comment_delimiters:
  assumes "map_of fs ''type'' = Some (Str (js ''MustacheCommentStatement''))"
    and "map_of fs ''value'' = Some (Str s)"
  shows "\<exists>opening closing.
      printPath ((k, Obj fs) # p) print
        = Inr (group (concat_doc [Text opening, line, Text (trim s), line, Text closing]))
    \<and> printPath_part_000 ((k, Obj fs) # p) print
        = Inr (group (concat_doc [Text opening, line, Text (trim s), line, Text closing]))
    \<and> (if (\<exists>u v. trim s = u @ js ''{{'' @ v) \<or> (\<exists>u v. trim s = u @ js ''}}'' @ v)
        then opening = js ''{{!--'' \<and> closing = js ''--}}''
        else opening = js ''{{!'' \<and> closing = js ''}}'')"
  using assms
  by (simp add: printPath_MustacheCommentStatement print_MustacheCommentStatement_Str
        includes_str_iff [symmetric])


theorem mustache_comment_delimiters_witness:
  "printPath (from_ast (Obj [(''type'', Str (js ''MustacheCommentStatement'')),
                             (''value'', Str (js '' a }} b ''))])) (\<lambda>q. Inl TypeError)
     = Inr (group (concat_doc [Text (js ''{{!--''), line, Text (js ''a }} b''), line, Text (js ''--}}'')]))
   \<and> printPath_part_000 (from_ast (Obj [(''type'', Str (js ''MustacheCommentStatement'')),
                             (''value'', Str (js '' a } b ''))])) (\<lambda>q. Inl TypeError)
     = Inr (group (concat_doc [Text (js ''{{!''), line, Text (js ''a } b''), line, Text (js ''}}'')]))"
proof -
  have t1: "trim (js '' a }} b '') = js ''a }} b''"
    by code_simp
  have c1: "(\<exists>u v. trim (js '' a }} b '') = u @ js ''{{'' @ v)
      \<or> (\<exists>u v. trim (js '' a }} b '') = u @ js ''}}'' @ v)"
    unfolding includes_str_iff [symmetric] by code_simp
  have t2: "trim (js '' a } b '') = js ''a } b''"
    by code_simp
  have c2: "\<not> ((\<exists>u v. trim (js '' a } b '') = u @ js ''{{'' @ v)
      \<or> (\<exists>u v. trim (js '' a } b '') = u @ js ''}}'' @ v))"
    unfolding includes_str_iff [symmetric] by code_simp
  show ?thesis
    using t1 c1 t2 c2
      mustache_comment_delimiters [of "[(''type'', Str (js ''MustacheCommentStatement'')),
          (''value'', Str (js '' a }} b ''))]" "js '' a }} b ''" Root "[]" "\<lambda>q. Inl TypeError"]
      mustache_comment_delimiters [of "[(''type'', Str (js ''MustacheCommentStatement'')),
          (''value'', Str (js '' a } b ''))]" "js '' a } b ''" Root "[]" "\<lambda>q. Inl TypeError"]
    by (auto simp: from_ast_def)
qed

lemma printPath_unsupported:
  assumes "t = (case map_of fs ''type'' of Some v \<Rightarrow> v | None \<Rightarrow> Undefined)"
    and "t \<notin> set (map (\<lambda>x. Str (js x)) handlebarsTypes)"
  shows "printPath ((k, Obj fs) # p) print = Inl (UnsupportedHandlebarsType t)"
  using assms by (simp add: printPath_def handlebarsTypes_def)

lemma map_path_Arr:
  assumes "get (getValue path) f = Inr (Arr xs)"
  shows "map_path print path [f] = mapE print (children ((Field f, Arr xs) # path) xs)"
  using assms by (simp add: map_path_def)

lemma printPath_ElementNode:
  assumes "map_of fs ''type'' = Some (Str (js ''ElementNode''))"
  shows "printPath ((k, Obj fs) # p) print = print_ElementNode print ((k, Obj fs) # p)"
  using assms by (simp add: printPath_def js_inject)

text \<open>
  C3, as amended. An element node whose children and attributes are arrays that print
  without error renders, when it has no children, in a self-closing form, \<open><tag attrs>\<close>
  or \<open><tag attrs />\<close> followed by a hard line, with no closing tag; when it has at least
  one child it renders as the opening tag, the indented children, a soft line and the
  closing tag \<open></tag>\<close>, whatever its tag is, and that is not a self-closing form.
\<close>

theorem element_rendering:
  assumes "map_of fs ''type'' = Some (Str (js ''ElementNode''))"
    and "map_of fs ''children'' = Some (Arr cs)"
    and "map_of fs ''attributes'' = Some (Arr as)"
    and "mapE print (children ((Field ''children'', Arr cs) # (k, Obj fs) # p) cs) = Inr ds"
    and "mapE print (children ((Field ''attributes'', Arr as) # (k, Obj fs) # p) as) = Inr ads"
    and "tag = docOf (case map_of fs ''tag'' of Some v \<Rightarrow> v | None \<Rightarrow> Undefined)"
  shows "(cs = [] \<longrightarrow>
            (printPath ((k, Obj fs) # p) print
               = Inr (selfClosingElement (js ''>'') tag (attributesDoc as ads))
             \<or> printPath ((k, Obj fs) # p) print
               = Inr (selfClosingElement (js '' />'') tag (attributesDoc as ads))))
       \<and> (cs \<noteq> [] \<longrightarrow>
            printPath ((k, Obj fs) # p) print = Inr (closedElement tag (attributesDoc as ads) ds)
            \<and> \<not> selfClosingForm (closedElement tag (attributesDoc as ads) ds))"
proof -
  have ch: "printChildren ''children'' ((k, Obj fs) # p) print = Inr (concat_doc ds)"
    using assms(2,4) by (simp add: printChildren_def map_path_Arr)
  have at: "printAttributes ((k, Obj fs) # p) print = Inr (attributesDoc as ads)"
    using assms(3,5) by (simp add: printAttributes_def map_path_Arr attributesDoc_def)
  have ds: "cs = [] \<Longrightarrow> ds = []"
    using assms(4) by (simp add: children_def)
  have ns: "\<not> selfClosingForm (closedElement tag (attributesDoc as ads) ds)"
    by (simp add: selfClosingForm_def selfClosingElement_def closedElement_def group_def
          concat_doc_def hardline_def)
  show ?thesis
    using ch at ds ns assms(2,6)
    by (simp add: printPath_ElementNode [OF assms(1)] print_ElementNode_def Let_def
          selfClosingElement_def closedElement_def)
qed


theorem element_rendering_witness:
  "(printPath (from_ast imgNode) printLeaf
      = Inr (selfClosingElement (js ''>'') (Text (js ''img'')) (attributesDoc [] []))
    \<or> printPath (from_ast imgNode) printLeaf
      = Inr (selfClosingElement (js '' />'') (Text (js ''img'')) (attributesDoc [] [])))
   \<and> printPath (from_ast brNode) printLeaf
      = Inr (closedElement (Text (js ''br'')) (attributesDoc [] []) [Text (js ''x'')])"
proof -
  have e: "mapE printLeaf (children q []) = Inr []" for q
    by (simp add: children_def)
  have c: "mapE printLeaf
      (children ((Field ''children'',
          Arr [Obj [(''type'', Str (js ''TextNode'')), (''chars'', Str (js ''x''))]])
        # (Root, brNode) # [])
        [Obj [(''type'', Str (js ''TextNode'')), (''chars'', Str (js ''x''))]])
      = Inr [Text (js ''x'')]"
    by code_simp
  have img: "printPath (from_ast imgNode) printLeaf
      = Inr (selfClosingElement (js ''>'') (Text (js ''img'')) (attributesDoc [] []))
    \<or> printPath (from_ast imgNode) printLeaf
      = Inr (selfClosingElement (js '' />'') (Text (js ''img'')) (attributesDoc [] []))"
    using element_rendering [of "[(''type'', Str (js ''ElementNode'')), (''tag'', Str (js ''img'')),
          (''attributes'', Arr []), (''children'', Arr [])]" "[]" "[]" printLeaf Root "[]" "[]" "[]"
          "Text (js ''img'')"] e
    by (simp add: imgNode_def from_ast_def)
  have br: "printPath (from_ast brNode) printLeaf
      = Inr (closedElement (Text (js ''br'')) (attributesDoc [] []) [Text (js ''x'')])"
    using element_rendering [of "[(''type'', Str (js ''ElementNode'')), (''tag'', Str (js ''br'')),
          (''attributes'', Arr []),
          (''children'', Arr [Obj [(''type'', Str (js ''TextNode'')), (''chars'', Str (js ''x''))]])]"
          "[Obj [(''type'', Str (js ''TextNode'')), (''chars'', Str (js ''x''))]]" "[]" printLeaf
          Root "[]" "[Text (js ''x'')]" "[]" "Text (js ''br'')"] e c
    by (simp add: brNode_def from_ast_def)
  show ?thesis
    using img br by blast
qed

text \<open>
  C3 as stated fails: \<open>br\<close> is a void tag, and a \<open>br\<close> element with one recorded child
  prints with the closing tag \<open></br>\<close>, whether the node carries a \<open>name\<close> or not.
\<close>

theorem void_element_with_children_counterexample:
  "js ''br'' \<in> set (map js voidTagNames)
   \<and> printPath (from_ast brNode) printLeaf
      = Inr (closedElement (Text (js ''br'')) (attributesDoc [] []) [Text (js ''x'')])
   \<and> printPath (from_ast brNamedNode) printLeaf
      = Inr (closedElement (Text (js ''br'')) (attributesDoc [] []) [Text (js ''x'')])
   \<and> \<not> selfClosingForm (closedElement (Text (js ''br'')) (attributesDoc [] []) [Text (js ''x'')])"
proof -
  have a: "js ''br'' \<in> set (map js voidTagNames)"
    by (simp add: voidTagNames_def)
  have b: "printPath (from_ast brNode) printLeaf
      = Inr (closedElement (Text (js ''br'')) (attributesDoc [] []) [Text (js ''x'')])"
    by code_simp
  have c: "printPath (from_ast brNamedNode) printLeaf
      = Inr (closedElement (Text (js ''br'')) (attributesDoc [] []) [Text (js ''x'')])"
    by code_simp
  have d: "\<not> selfClosingForm (closedElement (Text (js ''br'')) (attributesDoc [] []) [Text (js ''x'')])"
    by (simp add: selfClosingForm_def selfClosingElement_def closedElement_def group_def
          concat_doc_def hardline_def)
  show ?thesis
    using a b c d by blast
qed

section \<open>The JavaScript printer\<close>

lemma strictEq_Str: "strictEq a (Str s) \<longleftrightarrow> a = Str s"
  by (cases a) auto

lemma genericPrintNoParens_Literal:
  assumes "map_of fs ''type'' = Some (Str (js T))"
    and "T \<in> {''BooleanLiteral'', ''NumericLiteral'', ''StringLiteral'', ''Literal''}"
    and "map_of fs ''value'' = Some (Str s)"
  shows "genericPrintNoParens otherRule getFirstString ((k, Obj fs) # p) options print
           = bindE (nodeStr (Str s) (quote options)) (\<lambda>str. Inr (Text str))"
  using assms by (auto simp: genericPrintNoParens_def print_Literal_def js_inject)

text \<open>
  C1. Under \<open>quote = "auto"\<close> \<open>nodeStr\<close> returns, for every string, a literal that opens
  and closes with the same quote character, \<open>'\<close> or \<open>"\<close>. The quote is \<open>'\<close> exactly when
  the string has strictly fewer single quotes than double quotes to escape, which is
  exactly when the single-quoted rendering is strictly shorter than the double-quoted
  one; with as many of each the quote is \<open>"\<close>. That literal is what the rule of
  \<open>Literal\<close>, \<open>StringLiteral\<close>, \<open>BooleanLiteral\<close> and \<open>NumericLiteral\<close> prints for a node whose
  value is the string.
\<close>

theorem nodeStr_auto_quote:
  "\<exists>out. nodeStr (Str s) (Str (js ''auto'')) = Inr out
     \<and> (hd out = 0x27 \<or> hd out = 0x22) \<and> last out = hd out
     \<and> (hd out = 0x27 \<longleftrightarrow> singleQuotes s < doubleQuotes s)
     \<and> (hd out = 0x27 \<longleftrightarrow> length (singleQuoted s) < length (doubleQuoted s))
     \<and> (singleQuotes s = doubleQuotes s \<longrightarrow> hd out = 0x22)
     \<and> out = (if hd out = 0x27 then singleQuoted s else doubleQuoted s)
     \<and> (\<forall>fs T k p otherRule getFirstString options print.
           map_of fs ''type'' = Some (Str (js T))
           \<and> T \<in> {''BooleanLiteral'', ''NumericLiteral'', ''StringLiteral'', ''Literal''}
           \<and> map_of fs ''value'' = Some (Str s) \<and> quote options = Str (js ''auto'') \<longrightarrow>
           genericPrintNoParens otherRule getFirstString ((k, Obj fs) # p) options print
             = Inr (Text out))"
proof -
  obtain out where out: "nodeStr (Str s) (Str (js ''auto'')) = Inr out"
    and rest: "(hd out = 0x27 \<or> hd out = 0x22) \<and> last out = hd out
     \<and> (hd out = 0x27 \<longleftrightarrow> singleQuotes s < doubleQuotes s)
     \<and> (hd out = 0x27 \<longleftrightarrow> length (singleQuoted s) < length (doubleQuoted s))
     \<and> (singleQuotes s = doubleQuotes s \<longrightarrow> hd out = 0x22)
     \<and> out = (if hd out = 0x27 then singleQuoted s else doubleQuoted s)"
    using nodeStr_auto_choice [of s] by blast
  have "genericPrintNoParens otherRule getFirstString ((k, Obj fs) # p) options print = Inr (Text out)"
    if "map_of fs ''type'' = Some (Str (js T))
        \<and> T \<in> {''BooleanLiteral'', ''NumericLiteral'', ''StringLiteral'', ''Literal''}
        \<and> map_of fs ''value'' = Some (Str s) \<and> quote options = Str (js ''auto'')"
    for fs T k p otherRule getFirstString and options :: options and print
  proof -
    from that have t: "map_of fs ''type'' = Some (Str (js T))"
      and T: "T \<in> {''BooleanLiteral'', ''NumericLiteral'', ''StringLiteral'', ''Literal''}"
      and v: "map_of fs ''value'' = Some (Str s)" and q: "quote options = Str (js ''auto'')"
      by blast+
    show ?thesis
      by (simp add: genericPrintNoParens_Literal [OF t T v] q out)
  qed
  then have "\<forall>fs T k p otherRule getFirstString options print.
           map_of fs ''type'' = Some (Str (js T))
           \<and> T \<in> {''BooleanLiteral'', ''NumericLiteral'', ''StringLiteral'', ''Literal''}
           \<and> map_of fs ''value'' = Some (Str s) \<and> quote options = Str (js ''auto'') \<longrightarrow>
           genericPrintNoParens otherRule getFirstString ((k, Obj fs) # p) options print
             = Inr (Text out)"
    by (intro allI impI)
  with out rest show ?thesis
    by (intro exI [of _ out] conjI) (elim conjE, assumption)+
qed

theorem nodeStr_auto_quote_witness:
  "singleQuotes (js ''say \"hi\"'') < doubleQuotes (js ''say \"hi\"'')
   \<and> (\<exists>out. nodeStr (Str (js ''say \"hi\"'')) (Str (js ''auto'')) = Inr out \<and> hd out = 0x27
        \<and> genericPrintNoParens noRule firstString
             (from_ast (Obj [(''type'', Str (js ''StringLiteral'')), (''value'', Str (js ''say \"hi\"''))]))
             options0 (\<lambda>q. Inl TypeError) = Inr (Text out))
   \<and> singleQuotes (0x27 # js ''\"'') = doubleQuotes (0x27 # js ''\"'')
   \<and> (\<exists>out. nodeStr (Str (0x27 # js ''\"'')) (Str (js ''auto'')) = Inr out \<and> hd out = 0x22)"
proof -
  have a: "singleQuotes (js ''say \"hi\"'') < doubleQuotes (js ''say \"hi\"'')"
    by (simp add: singleQuotes_def doubleQuotes_def js_def)
  have b: "singleQuotes (0x27 # js ''\"'') = doubleQuotes (0x27 # js ''\"'')"
    by (simp add: singleQuotes_def doubleQuotes_def js_def)
  have n: "map_of [(''type'', Str (js ''StringLiteral'')), (''value'', Str (js ''say \"hi\"''))] ''type''
        = Some (Str (js ''StringLiteral''))
      \<and> ''StringLiteral'' \<in> {''BooleanLiteral'', ''NumericLiteral'', ''StringLiteral'', ''Literal''}
      \<and> map_of [(''type'', Str (js ''StringLiteral'')), (''value'', Str (js ''say \"hi\"''))] ''value''
        = Some (Str (js ''say \"hi\"''))
      \<and> quote options0 = Str (js ''auto'')"
    by (simp add: options0_def)
  from nodeStr_auto_quote [of "js ''say \"hi\"''"] obtain out
    where big: "nodeStr (Str (js ''say \"hi\"'')) (Str (js ''auto'')) = Inr out
     \<and> (hd out = 0x27 \<or> hd out = 0x22) \<and> last out = hd out
     \<and> (hd out = 0x27 \<longleftrightarrow> singleQuotes (js ''say \"hi\"'') < doubleQuotes (js ''say \"hi\"''))
     \<and> (hd out = 0x27 \<longleftrightarrow> length (singleQuoted (js ''say \"hi\"'')) < length (doubleQuoted (js ''say \"hi\"'')))
     \<and> (singleQuotes (js ''say \"hi\"'') = doubleQuotes (js ''say \"hi\"'') \<longrightarrow> hd out = 0x22)
     \<and> out = (if hd out = 0x27 then singleQuoted (js ''say \"hi\"'') else doubleQuoted (js ''say \"hi\"''))
     \<and> (\<forall>fs T k p otherRule getFirstString options print.
           map_of fs ''type'' = Some (Str (js T))
           \<and> T \<in> {''BooleanLiteral'', ''NumericLiteral'', ''StringLiteral'', ''Literal''}
           \<and> map_of fs ''value'' = Some (Str (js ''say \"hi\"'')) \<and> quote options = Str (js ''auto'') \<longrightarrow>
           genericPrintNoParens otherRule getFirstString ((k, Obj fs) # p) options print
             = Inr (Text out))" ..
  note out = big [THEN conjunct1]
  note q = big [THEN conjunct2, THEN conjunct2, THEN conjunct2, THEN conjunct1]
  note pr = big [THEN conjunct2, THEN conjunct2, THEN conjunct2, THEN conjunct2, THEN conjunct2,
    THEN conjunct2, THEN conjunct2]
  have "genericPrintNoParens noRule firstString
      ((Root, Obj [(''type'', Str (js ''StringLiteral'')), (''value'', Str (js ''say \"hi\"''))]) # [])
      options0 (\<lambda>q. Inl TypeError) = Inr (Text out)"
    by (rule pr [rule_format, OF n])
  then have first: "\<exists>out. nodeStr (Str (js ''say \"hi\"'')) (Str (js ''auto'')) = Inr out \<and> hd out = 0x27
        \<and> genericPrintNoParens noRule firstString
             (from_ast (Obj [(''type'', Str (js ''StringLiteral'')), (''value'', Str (js ''say \"hi\"''))]))
             options0 (\<lambda>q. Inl TypeError) = Inr (Text out)"
    using out q a by (auto simp: from_ast_def)
  from nodeStr_auto_quote [of "0x27 # js ''\"''"] obtain out2
    where big2: "nodeStr (Str (0x27 # js ''\"'')) (Str (js ''auto'')) = Inr out2
     \<and> (hd out2 = 0x27 \<or> hd out2 = 0x22) \<and> last out2 = hd out2
     \<and> (hd out2 = 0x27 \<longleftrightarrow> singleQuotes (0x27 # js ''\"'') < doubleQuotes (0x27 # js ''\"''))
     \<and> (hd out2 = 0x27 \<longleftrightarrow> length (singleQuoted (0x27 # js ''\"'')) < length (doubleQuoted (0x27 # js ''\"'')))
     \<and> (singleQuotes (0x27 # js ''\"'') = doubleQuotes (0x27 # js ''\"'') \<longrightarrow> hd out2 = 0x22)
     \<and> out2 = (if hd out2 = 0x27 then singleQuoted (0x27 # js ''\"'') else doubleQuoted (0x27 # js ''\"''))
     \<and> (\<forall>fs T k p otherRule getFirstString options print.
           map_of fs ''type'' = Some (Str (js T))
           \<and> T \<in> {''BooleanLiteral'', ''NumericLiteral'', ''StringLiteral'', ''Literal''}
           \<and> map_of fs ''value'' = Some (Str (0x27 # js ''\"'')) \<and> quote options = Str (js ''auto'') \<longrightarrow>
           genericPrintNoParens otherRule getFirstString ((k, Obj fs) # p) options print
             = Inr (Text out2))" ..
  note out2 = big2 [THEN conjunct1]
  note tie = big2 [THEN conjunct2, THEN conjunct2, THEN conjunct2, THEN conjunct2, THEN conjunct2,
    THEN conjunct1, rule_format, OF b]
  have second: "\<exists>out. nodeStr (Str (0x27 # js ''\"'')) (Str (js ''auto'')) = Inr out \<and> hd out = 0x22"
    using out2 tie by (intro exI [of _ out2] conjI)
  show ?thesis
    using a b first second by (intro conjI)
qed

lemma genericPrintNoParens_unknown:
  assumes "t = (case map_of fs ''type'' of Some v \<Rightarrow> v | None \<Rightarrow> Undefined)"
    and "t \<notin> set (map (\<lambda>x. Str (js x)) ruledTypes)"
  shows "genericPrintNoParens otherRule getFirstString ((k, Obj fs) # p) options print
           = Inl (UnknownType t)"
  using assms
  by (simp add: genericPrintNoParens_def ruledTypes_def embeddedTypes_def image_iff)

text \<open>
  C4. A node whose \<open>type\<close> is none of the kinds \<open>genericPrintNoParens\<close> has a rule
  for (an unlisted kind, a kind listed before \<open>default\<close>, or no \<open>type\<close> at all) makes
  \<open>genericPrintNoParens\<close> throw \<open>unknown type\<close>, and a node whose \<open>type\<close> is none of the
  kinds of the template printer makes \<open>printPath\<close> throw
  \<open>unsupported handlebars type\<close>: the result is the error, no document is returned.
\<close>

theorem unsupported_kind_throws:
  assumes "t = (case map_of fs ''type'' of Some v \<Rightarrow> v | None \<Rightarrow> Undefined)"
  shows "(t \<notin> set (map (\<lambda>x. Str (js x)) ruledTypes) \<longrightarrow>
            genericPrintNoParens otherRule getFirstString ((k, Obj fs) # p) options print
              = Inl (UnknownType t))
       \<and> (t \<notin> set (map (\<lambda>x. Str (js x)) handlebarsTypes) \<longrightarrow>
            printPath ((k, Obj fs) # p) print = Inl (UnsupportedHandlebarsType t))"
  using assms genericPrintNoParens_unknown [of t fs] printPath_unsupported [of t fs]
  by blast

theorem unsupported_kind_throws_witness:
  "Str (js ''XMLElement'') \<notin> set (map (\<lambda>x. Str (js x)) ruledTypes)
   \<and> genericPrintNoParens (\<lambda>t p opts pr. Inr (Text [])) (\<lambda>d. Null)
        (from_ast (Obj [(''type'', Str (js ''XMLElement''))]))
        \<lparr>tabWidth = 2, quote = Str (js ''auto''), objectCurlySpacing = Bool True\<rparr>
        (\<lambda>q. Inr (Text []))
      = Inl (UnknownType (Str (js ''XMLElement'')))
   \<and> Str (js ''BlockStatement'') \<notin> set (map (\<lambda>x. Str (js x)) handlebarsTypes)
   \<and> printPath (from_ast (Obj [(''type'', Str (js ''BlockStatement''))])) (\<lambda>q. Inr (Text []))
      = Inl (UnsupportedHandlebarsType (Str (js ''BlockStatement'')))"
proof -
  have a: "Str (js ''XMLElement'') \<notin> set (map (\<lambda>x. Str (js x)) ruledTypes)"
    by (simp add: ruledTypes_def embeddedTypes_def otherTypes_def js_inject)
  have b: "Str (js ''BlockStatement'') \<notin> set (map (\<lambda>x. Str (js x)) handlebarsTypes)"
    by (simp add: handlebarsTypes_def js_inject)
  show ?thesis
    using a b
      unsupported_kind_throws [of "Str (js ''XMLElement'')" "[(''type'', Str (js ''XMLElement''))]"
        "\<lambda>t p opts pr. Inr (Text [])" "\<lambda>d. Null" Root "[]"
        "\<lparr>tabWidth = 2, quote = Str (js ''auto''), objectCurlySpacing = Bool True\<rparr>"
        "\<lambda>q. Inr (Text [])"]
      unsupported_kind_throws [of "Str (js ''BlockStatement'')" "[(''type'', Str (js ''BlockStatement''))]"
        "\<lambda>t p opts pr. Inr (Text [])" "\<lambda>d. Null" Root "[]"
        "\<lparr>tabWidth = 2, quote = Str (js ''auto''), objectCurlySpacing = Bool True\<rparr>"
        "\<lambda>q. Inr (Text [])"]
    by (simp add: from_ast_def)
qed

lemma objectProps_empty:
  assumes "\<forall>f \<in> set fs'. map_of fs f = Some (Arr [])"
  shows "objectProps ((k, Obj fs) # p) print fs' = Inr []"
  using assms by (induction fs') (simp_all add: map_path_def children_def)

lemma genericPrintNoParens_Object:
  assumes "map_of fs ''type'' = Some (Str (js T))"
    and "T = ''ObjectExpression'' \<or> T = ''ObjectPattern'' \<or> T = ''ObjectTypeAnnotation''"
  shows "genericPrintNoParens otherRule getFirstString ((k, Obj fs) # p) options print
           = print_Object ((k, Obj fs) # p) options print"
  using assms by (auto simp: genericPrintNoParens_def js_inject)

text \<open>
  C10. An \<open>ObjectExpression\<close>, \<open>ObjectPattern\<close> or \<open>ObjectTypeAnnotation\<close> whose
  \<open>properties\<close> (and, for the type annotation, \<open>indexers\<close> and \<open>callProperties\<close>) are
  empty arrays prints as the text \<open>{}\<close> and nothing else, whatever its \<open>exact\<close> and
  \<open>typeAnnotation\<close> fields hold and whatever \<open>print\<close> does.
\<close>

theorem empty_object_braces:
  assumes "map_of fs ''type'' = Some (Str (js T))"
    and "T = ''ObjectExpression'' \<or> T = ''ObjectPattern'' \<or> T = ''ObjectTypeAnnotation''"
    and "map_of fs ''properties'' = Some (Arr [])"
    and "T = ''ObjectTypeAnnotation'' \<longrightarrow>
           map_of fs ''indexers'' = Some (Arr []) \<and> map_of fs ''callProperties'' = Some (Arr [])"
  shows "genericPrintNoParens otherRule getFirstString ((k, Obj fs) # p) options print
           = Inr (Text (js ''{}''))"
proof -
  have "objectProps ((k, Obj fs) # p) print
          ((if T = ''ObjectTypeAnnotation'' then [''indexers'', ''callProperties''] else [])
            @ [''properties'']) = Inr []"
    using assms(3,4) by (intro objectProps_empty) auto
  then show ?thesis
    using assms(1)
    by (simp add: genericPrintNoParens_Object [OF assms(1,2)] print_Object_def Let_def
          strictEq_Str js_inject)
qed

theorem empty_object_braces_witness:
  "genericPrintNoParens (\<lambda>t p opts pr. Inl TypeError) (\<lambda>d. Null)
     (from_ast (Obj [(''type'', Str (js ''ObjectTypeAnnotation'')), (''exact'', Bool True),
        (''indexers'', Arr []), (''callProperties'', Arr []), (''properties'', Arr []),
        (''typeAnnotation'', Obj [(''type'', Str (js ''TypeAnnotation''))])]))
     \<lparr>tabWidth = 2, quote = Str (js ''auto''), objectCurlySpacing = Bool True\<rparr>
     (\<lambda>q. Inr (Text (js ''T'')))
   = Inr (Text (js ''{}''))"
  using empty_object_braces [of "[(''type'', Str (js ''ObjectTypeAnnotation'')), (''exact'', Bool True),
        (''indexers'', Arr []), (''callProperties'', Arr []), (''properties'', Arr []),
        (''typeAnnotation'', Obj [(''type'', Str (js ''TypeAnnotation''))])]" "''ObjectTypeAnnotation''"]
  by (simp add: from_ast_def)

lemma PrintResult_empty: "emptyPrintResult = Inr \<lparr>code = [], map_of_result = None\<rparr>"
  by (simp add: emptyPrintResult_def PrintResult_def)

text \<open>
  C8. On a falsy argument (\<open>undefined\<close>, \<open>null\<close>, \<open>false\<close>, \<open>0\<close>, \<open>NaN\<close>, the empty
  string) \<open>Printer.print\<close> and \<open>Printer.printGenerically\<close> return, without an error, the
  result whose code is the empty string and which has no source map.
\<close>

theorem falsy_ast_empty_result:
  assumes "\<not> truthy ast"
  shows "Printer_print print linesToString composeSourceMaps ast
           = Inr \<lparr>code = [], map_of_result = None\<rparr>
       \<and> Printer_printGenerically printGenerically pp_print ast
           = Inr \<lparr>code = [], map_of_result = None\<rparr>"
  using assms by (simp add: Printer_print_def Printer_printGenerically_def PrintResult_empty)

theorem falsy_ast_empty_result_witness:
  "\<not> truthy Null
   \<and> Printer_print (\<lambda>p c. Inl TypeError) (\<lambda>l::doc. Inl TypeError) (\<lambda>l. Inl TypeError) Null
       = Inr \<lparr>code = [], map_of_result = None\<rparr>
   \<and> Printer_printGenerically (\<lambda>p. Inl TypeError) (\<lambda>d. Inl TypeError) Null
       = Inr \<lparr>code = [], map_of_result = None\<rparr>"
  using falsy_ast_empty_result [of Null "\<lambda>p c. Inl TypeError" "\<lambda>l::doc. Inl TypeError"
      "\<lambda>l. Inl TypeError" "\<lambda>p. Inl TypeError" "\<lambda>d. Inl TypeError"]
  by simp

lemma falsy_values: "\<not> truthy v \<longleftrightarrow> v \<in> {Undefined, Null, Bool False, Num 0, NaN, Str []}"
  by (cases v) auto

lemma mapE_length: "mapE f xs = Inr ys \<Longrightarrow> length ys = length xs"
proof (induction xs arbitrary: ys)
  case Nil
  then show ?case by simp
next
  case (Cons x xs)
  then obtain y ys' where "f x = Inr y" "mapE f xs = Inr ys'" "ys = y # ys'"
    by (cases "f x"; cases "mapE f xs") auto
  with Cons.IH show ?case by simp
qed

lemma length_children: "length (children q xs) = length xs"
  by (simp add: children_def)




lemma genericPrintNoParens_VariableDeclaration:
  assumes "map_of fs ''type'' = Some (Str (js ''VariableDeclaration''))"
  shows "genericPrintNoParens otherRule getFirstString ((k, Obj fs) # p) options print
           = print_VariableDeclaration ((k, Obj fs) # p) options print"
  using assms by (simp add: genericPrintNoParens_def js_inject)

text \<open>
  C6, as amended. A variable declaration whose declarators print without error prints
  as the exclusive group of its kind, a space, the first declarator and the indented
  rest, followed by \<open>;\<close> unless the nearest node above it is a \<open>ForStatement\<close>, a
  \<open>ForInStatement\<close>, a \<open>ForOfStatement\<close> or a \<open>ForAwaitStatement\<close>.
\<close>

theorem variable_declaration_semicolon:
  assumes "map_of fs ''type'' = Some (Str (js ''VariableDeclaration''))"
    and "map_of fs ''declarations'' = Some (Arr decls)"
    and "mapE print (children ((Field ''declarations'', Arr decls) # (k, Obj fs) # p) decls)
           = Inr printed"
    and "parts = [docOf (case map_of fs ''kind'' of Some v \<Rightarrow> v | None \<Rightarrow> Undefined),
                  Text (js '' ''),
                  (case printed of [] \<Rightarrow> Opaque Undefined | d # ds \<Rightarrow> d),
                  indent (tabWidth options)
                    (concat_doc (map (\<lambda>d. concat_doc [Text (js '',''), line, d]) (drop 1 printed)))]"
    and "parent = firstNode p"
  shows "genericPrintNoParens otherRule getFirstString ((k, Obj fs) # p) options print =
      Inr (multilineGroup (concat_doc
        (if hasType parent ''ForStatement'' \<or> hasType parent ''ForInStatement''
            \<or> hasType parent ''ForOfStatement'' \<or> hasType parent ''ForAwaitStatement''
         then parts else parts @ [Text (js '';'')])))"
  using assms(2-)
  by (simp add: genericPrintNoParens_VariableDeclaration [OF assms(1)] print_VariableDeclaration_def
        map_path_Arr Let_def getParentNode_def)


theorem variable_declaration_semicolon_witness:
  "genericPrintNoParens noRule firstString
     [(Index 0, constDeclaration), (Field ''body'', Arr [constDeclaration]), (Root, blockStatement)]
     options0 (\<lambda>q. Inr (Text (js ''x'')))
   = Inr (multilineGroup (concat_doc
       [Text (js ''const''), Text (js '' ''), Text (js ''x''), indent 2 (concat_doc []),
        Text (js '';'')]))
   \<and> genericPrintNoParens noRule firstString
     [(Field ''left'', constDeclaration), (Root, forAwaitStatement)]
     options0 (\<lambda>q. Inr (Text (js ''x'')))
   = Inr (multilineGroup (concat_doc
       [Text (js ''const''), Text (js '' ''), Text (js ''x''), indent 2 (concat_doc [])]))"
proof -
  have p1: "firstNode [(Field ''body'', Arr [constDeclaration]), (Root, blockStatement)] = blockStatement"
    by (simp add: blockStatement_def)
  have p2: "firstNode [(Root, forAwaitStatement)] = forAwaitStatement"
    by (simp add: forAwaitStatement_def)
  have h1: "\<not> (hasType blockStatement ''ForStatement'' \<or> hasType blockStatement ''ForInStatement''
      \<or> hasType blockStatement ''ForOfStatement'' \<or> hasType blockStatement ''ForAwaitStatement'')"
    by (simp add: blockStatement_def js_inject)
  have h2: "hasType forAwaitStatement ''ForAwaitStatement''"
    by (simp add: forAwaitStatement_def)
  have r1: "genericPrintNoParens noRule firstString
     [(Index 0, constDeclaration), (Field ''body'', Arr [constDeclaration]), (Root, blockStatement)]
     options0 (\<lambda>q. Inr (Text (js ''x'')))
   = Inr (multilineGroup (concat_doc
       [Text (js ''const''), Text (js '' ''), Text (js ''x''), indent 2 (concat_doc []),
        Text (js '';'')]))"
    using variable_declaration_semicolon [where fs = "[(''type'', Str (js ''VariableDeclaration'')),
          (''kind'', Str (js ''const'')),
          (''declarations'', Arr [Obj [(''type'', Str (js ''VariableDeclarator''))]])]"
        and decls = "[Obj [(''type'', Str (js ''VariableDeclarator''))]]"
        and print = "\<lambda>q. Inr (Text (js ''x''))" and k = "Index 0"
        and p = "[(Field ''body'', Arr [constDeclaration]), (Root, blockStatement)]"
        and printed = "[Text (js ''x'')]" and parent = blockStatement
        and otherRule = noRule and getFirstString = firstString and options = options0, OF _ _ _ refl]
      p1 h1
    by (simp add: constDeclaration_def options0_def children_def)
  have r2: "genericPrintNoParens noRule firstString
     [(Field ''left'', constDeclaration), (Root, forAwaitStatement)]
     options0 (\<lambda>q. Inr (Text (js ''x'')))
   = Inr (multilineGroup (concat_doc
       [Text (js ''const''), Text (js '' ''), Text (js ''x''), indent 2 (concat_doc [])]))"
    using variable_declaration_semicolon [where fs = "[(''type'', Str (js ''VariableDeclaration'')),
          (''kind'', Str (js ''const'')),
          (''declarations'', Arr [Obj [(''type'', Str (js ''VariableDeclarator''))]])]"
        and decls = "[Obj [(''type'', Str (js ''VariableDeclarator''))]]"
        and print = "\<lambda>q. Inr (Text (js ''x''))" and k = "Field ''left''"
        and p = "[(Root, forAwaitStatement)]"
        and printed = "[Text (js ''x'')]" and parent = forAwaitStatement
        and otherRule = noRule and getFirstString = firstString and options = options0, OF _ _ _ refl]
      p2 h2
    by (simp add: constDeclaration_def options0_def children_def)
  show ?thesis
    using r1 r2 by blast
qed

text \<open>
  C6 as stated fails: a declaration whose parent is a \<open>ForAwaitStatement\<close>, which is
  neither a \<open>ForStatement\<close>, a \<open>ForInStatement\<close> nor a \<open>ForOfStatement\<close>, prints
  without the \<open>;\<close>.
\<close>

theorem for_await_declaration_counterexample:
  "getParentNode [(Field ''left'', constDeclaration), (Root, forAwaitStatement)] = forAwaitStatement
   \<and> \<not> hasType forAwaitStatement ''ForStatement''
   \<and> \<not> hasType forAwaitStatement ''ForInStatement''
   \<and> \<not> hasType forAwaitStatement ''ForOfStatement''
   \<and> genericPrintNoParens noRule firstString
        [(Field ''left'', constDeclaration), (Root, forAwaitStatement)]
        options0 (\<lambda>q. Inr (Text (js ''x'')))
      = Inr (multilineGroup (concat_doc
          [Text (js ''const''), Text (js '' ''), Text (js ''x''), indent 2 (concat_doc [])]))"
  by code_simp

subsection \<open>Import declarations\<close>

lemma named_not_default: "isNamed v \<Longrightarrow> \<not> isDefaultOrNamespace v"
  by (cases v) (auto simp: isNamed_def isDefaultOrNamespace_def js_inject)

lemma step_default:
  assumes "isDefaultOrNamespace (getValue sp)"
  shows "importSpecifier options print sp (found, parts) =
     (if found then Inl AssertionError
      else bindE (print sp) (\<lambda>d. Inr (False, comma sp parts @ [d])))"
  using assms by (simp add: importSpecifier_def isDefaultOrNamespace_def comma_def Let_def)

lemma step_named:
  assumes "isNamed (getValue sp)"
  shows "importSpecifier options print sp (found, parts) =
     bindE (print sp) (\<lambda>d. Inr (True, comma sp parts @ (if found then [] else [leftCurly options]) @ [d]))"
  using assms named_not_default [OF assms]
  by (simp add: importSpecifier_def isDefaultOrNamespace_def isNamed_def comma_def Let_def
        assertType_def leftCurly_def)

lemma step_other:
  assumes "\<not> isNamed (getValue sp)" and "\<not> isDefaultOrNamespace (getValue sp)"
  shows "importSpecifier options print sp (found, parts) = Inl (NotMatchType ''ImportSpecifier'')"
  using assms
  by (simp add: importSpecifier_def isDefaultOrNamespace_def isNamed_def Let_def assertType_def)

text \<open>Once a named specifier has been met, a default or namespace specifier aborts the loop.\<close>

lemma found_then_default_aborts:
  assumes "\<exists>sp \<in> set sps. isDefaultOrNamespace (getValue sp)"
  shows "\<exists>e. importSpecifiers options print sps (True, parts) = Inl e
           \<and> ((\<forall>sp \<in> set sps. \<exists>d. print sp = Inr d) \<longrightarrow> isAssertionFailure e)"
  using assms
proof (induction sps arbitrary: parts)
  case Nil
  then show ?case by simp
next
  case (Cons sp sps)
  show ?case
  proof (cases "isDefaultOrNamespace (getValue sp)")
    case True
    then show ?thesis by (simp add: step_default)
  next
    case False
    then have rest: "\<exists>sp \<in> set sps. isDefaultOrNamespace (getValue sp)"
      using Cons.prems by auto
    show ?thesis
    proof (cases "isNamed (getValue sp)")
      case named: True
      show ?thesis
      proof (cases "print sp")
        case (Inl e)
        then show ?thesis by (auto simp: step_named [OF named])
      next
        case (Inr d)
        then show ?thesis
          using Cons.IH [OF rest, of "comma sp parts @ [d]"]
          by (auto simp: step_named [OF named])
      qed
    next
      case other: False
      then show ?thesis by (simp add: step_other [OF other False])
    qed
  qed
qed

lemma named_before_default_aborts:
  assumes "map getValue sps = xs @ a # ys @ b # zs"
    and "isNamed a" and "isDefaultOrNamespace b"
  shows "\<exists>e. importSpecifiers options print sps (found, parts) = Inl e
           \<and> ((\<forall>sp \<in> set sps. \<exists>d. print sp = Inr d) \<longrightarrow> isAssertionFailure e)"
  using assms(1)
proof (induction xs arbitrary: sps found parts)
  case Nil
  then obtain sp rest where sps: "sps = sp # rest" and a: "getValue sp = a"
    and rest: "map getValue rest = ys @ b # zs"
    by (cases sps) auto
  have "b \<in> set (map getValue rest)"
    using rest by simp
  then have later: "\<exists>sp \<in> set rest. isDefaultOrNamespace (getValue sp)"
    using assms(3) by auto
  have named: "isNamed (getValue sp)"
    using a assms(2) by simp
  show ?case
  proof (cases "print sp")
    case (Inl e)
    then show ?thesis by (auto simp: sps step_named [OF named])
  next
    case (Inr d)
    then show ?thesis
      using found_then_default_aborts [OF later,
          of options print "comma sp parts @ (if found then [] else [leftCurly options]) @ [d]"]
      by (auto simp: sps step_named [OF named])
  qed
next
  case (Cons x xs)
  then obtain sp rest where sps: "sps = sp # rest"
    and rest: "map getValue rest = xs @ a # ys @ b # zs"
    by (cases sps) auto
  show ?case
  proof (cases "importSpecifier options print sp (found, parts)")
    case (Inl e)
    have "isAssertionFailure e" if "\<exists>d. print sp = Inr d"
    proof -
      from that obtain d where d: "print sp = Inr d" by blast
      show ?thesis
      proof (cases "isDefaultOrNamespace (getValue sp)")
        case True
        then show ?thesis using Inl d by (auto simp: step_default split: if_splits)
      next
        case False
        show ?thesis
        proof (cases "isNamed (getValue sp)")
          case True
          then show ?thesis using Inl d by (simp add: step_named)
        next
          case n: False
          then show ?thesis using Inl False by (auto simp: step_other)
        qed
      qed
    qed
    then show ?thesis using Inl by (auto simp: sps)
  next
    case (Inr st)
    obtain found' parts' where st: "st = (found', parts')" by (cases st)
    show ?thesis
      using Cons.IH [OF rest, of found' parts'] Inr st by (auto simp: sps)
  qed
qed


lemma importSpecifiers_append:
  "importSpecifiers options print (a @ b) st
     = bindE (importSpecifiers options print a st) (importSpecifiers options print b)"
proof (induction a arbitrary: st)
  case Nil
  show ?case by simp
next
  case (Cons sp a)
  show ?case
    by (cases "importSpecifier options print sp st") (simp_all add: Cons.IH)
qed

lemma specifierPaths_Cons:
  "specifierPaths q k (x # xs) = ((Index k, x) # q) # specifierPaths q (Suc k) xs"
  by (simp add: specifierPaths_def)

lemma specifierPaths_append:
  "specifierPaths q k (xs @ ys) = specifierPaths q k xs @ specifierPaths q (k + length xs) ys"
  by (simp add: specifierPaths_def enumerate_append_eq)

lemma children_specifierPaths: "children q xs = specifierPaths q 0 xs"
  by (simp add: children_def specifierPaths_def)

lemma map_getValue_specifierPaths: "map getValue (specifierPaths q k xs) = xs"
  by (induction xs arbitrary: k) (simp_all add: specifierPaths_Cons specifierPaths_def)

lemma mapE_Cons_Inr:
  "mapE f (x # xs) = Inr ys \<longleftrightarrow> (\<exists>y ys'. f x = Inr y \<and> mapE f xs = Inr ys' \<and> ys = y # ys')"
  by (cases "f x"; cases "mapE f xs") auto

lemma mapE_append_Inr:
  "mapE f (xs @ ys) = Inr zs
     \<longleftrightarrow> (\<exists>as bs. mapE f xs = Inr as \<and> mapE f ys = Inr bs \<and> zs = as @ bs)"
proof (induction xs arbitrary: zs)
  case Nil
  show ?case by simp
next
  case (Cons x xs)
  show ?case
    by (auto simp: Cons.IH mapE_Cons_Inr simp del: mapE.simps)
qed

lemma default_loop:
  assumes "\<forall>v \<in> set xs. isDefaultOrNamespace v"
    and "mapE print (specifierPaths q k xs) = Inr ds"
  shows "importSpecifiers options print (specifierPaths q k xs) (False, parts)
           = Inr (False, parts @ commaed k ds)"
  using assms
proof (induction xs arbitrary: k parts ds)
  case Nil
  then show ?case by (simp add: specifierPaths_def)
next
  case (Cons x xs)
  from Cons.prems(2) obtain d ds' where d: "print ((Index k, x) # q) = Inr d"
    and ds': "mapE print (specifierPaths q (Suc k) xs) = Inr ds'" and ds: "ds = d # ds'"
    by (auto simp: specifierPaths_Cons mapE_Cons_Inr simp del: mapE.simps)
  have x: "isDefaultOrNamespace (getValue ((Index k, x) # q))"
    using Cons.prems(1) by simp
  have "importSpecifiers options print (specifierPaths q (Suc k) xs)
          (False, comma ((Index k, x) # q) parts @ [d])
        = Inr (False, (comma ((Index k, x) # q) parts @ [d]) @ commaed (Suc k) ds')"
    using Cons.IH [OF _ ds'] Cons.prems(1) by simp
  then show ?case
    using d by (simp add: specifierPaths_Cons step_default [OF x] ds comma_def)
qed

lemma named_loop_found:
  assumes "\<forall>v \<in> set xs. isNamed v"
    and "mapE print (specifierPaths q k xs) = Inr ds"
  shows "importSpecifiers options print (specifierPaths q k xs) (True, parts)
           = Inr (True, parts @ commaed k ds)"
  using assms
proof (induction xs arbitrary: k parts ds)
  case Nil
  then show ?case by (simp add: specifierPaths_def)
next
  case (Cons x xs)
  from Cons.prems(2) obtain d ds' where d: "print ((Index k, x) # q) = Inr d"
    and ds': "mapE print (specifierPaths q (Suc k) xs) = Inr ds'" and ds: "ds = d # ds'"
    by (auto simp: specifierPaths_Cons mapE_Cons_Inr simp del: mapE.simps)
  have x: "isNamed (getValue ((Index k, x) # q))"
    using Cons.prems(1) by simp
  have "importSpecifiers options print (specifierPaths q (Suc k) xs)
          (True, comma ((Index k, x) # q) parts @ [d])
        = Inr (True, (comma ((Index k, x) # q) parts @ [d]) @ commaed (Suc k) ds')"
    using Cons.IH [OF _ ds'] Cons.prems(1) by simp
  then show ?case
    using d by (simp add: specifierPaths_Cons step_named [OF x] ds comma_def)
qed

lemma named_loop:
  assumes "\<forall>v \<in> set xs. isNamed v" and "xs \<noteq> []"
    and "mapE print (specifierPaths q k xs) = Inr ds"
  shows "importSpecifiers options print (specifierPaths q k xs) (False, parts)
           = Inr (True, parts @ (if 0 < k then [Text (js '', '')] else [])
                   @ leftCurly options # hd ds # commaed (Suc k) (tl ds))"
proof -
  obtain x xs' where xs: "xs = x # xs'"
    using assms(2) by (cases xs) auto
  from assms(3) obtain d ds' where d: "print ((Index k, x) # q) = Inr d"
    and ds': "mapE print (specifierPaths q (Suc k) xs') = Inr ds'" and ds: "ds = d # ds'"
    by (auto simp: xs specifierPaths_Cons mapE_Cons_Inr simp del: mapE.simps)
  have x: "isNamed (getValue ((Index k, x) # q))"
    using assms(1) xs by simp
  have "importSpecifiers options print (specifierPaths q (Suc k) xs')
          (True, comma ((Index k, x) # q) parts @ [leftCurly options] @ [d])
        = Inr (True, (comma ((Index k, x) # q) parts @ [leftCurly options] @ [d])
                 @ commaed (Suc k) ds')"
    using named_loop_found [OF _ ds'] assms(1) xs by simp
  then show ?thesis
    using d by (simp add: xs specifierPaths_Cons step_named [OF x] ds comma_def)
qed

lemma commaed_Suc: "commaed (Suc k) ds = concat (map (\<lambda>d. [Text (js '', ''), d]) ds)"
  by (induction ds arbitrary: k) simp_all

lemma separate_Cons: "separate sep (d # ds) = d # concat (map (\<lambda>e. [sep, e]) ds)"
  by (induction ds arbitrary: d) simp_all

lemma commaed_0: "commaed 0 ds = separate (Text (js '', '')) ds"
  by (cases ds) (simp_all add: commaed_Suc separate_Cons)

lemma hd_commaed: "ds \<noteq> [] \<Longrightarrow> hd ds # commaed (Suc k) (tl ds) = separate (Text (js '', '')) ds"
  by (cases ds) (simp_all add: commaed_Suc separate_Cons)

text \<open>The whole loop when the default and namespace specifiers come first.\<close>

lemma ordered_loop:
  assumes "\<forall>v \<in> set dfl. isDefaultOrNamespace v" and "\<forall>v \<in> set nmd. isNamed v"
    and "mapE print (children q (dfl @ nmd)) = Inr (docs1 @ docs2)"
    and "length docs1 = length dfl"
  shows "importSpecifiers options print (children q (dfl @ nmd)) (False, parts)
     = Inr (nmd \<noteq> [],
         parts @ separate (Text (js '', '')) docs1
         @ (if nmd = [] then []
            else (if docs1 = [] then [] else [Text (js '', '')])
              @ leftCurly options # separate (Text (js '', '')) docs2))"
proof -
  from assms(3) obtain as bs where as: "mapE print (specifierPaths q 0 dfl) = Inr as"
    and bs: "mapE print (specifierPaths q (length dfl) nmd) = Inr bs"
    and eq: "docs1 @ docs2 = as @ bs"
    by (auto simp: children_specifierPaths specifierPaths_append mapE_append_Inr)
  have "length as = length dfl"
    using mapE_length [OF as] by (simp add: specifierPaths_def)
  then have as1: "as = docs1" and bs2: "bs = docs2"
    using eq assms(4) by auto
  have len2: "length docs2 = length nmd"
    using mapE_length [OF bs] bs2 by (simp add: specifierPaths_def)
  have first: "importSpecifiers options print (specifierPaths q 0 dfl) (False, parts)
      = Inr (False, parts @ separate (Text (js '', '')) docs1)"
    using default_loop [OF assms(1) as] by (simp add: as1 commaed_0)
  show ?thesis
  proof (cases "nmd = []")
    case True
    then show ?thesis
      using first by (simp add: children_specifierPaths)
  next
    case False
    then have d2: "docs2 \<noteq> []"
      using len2 by auto
    have e1: "docs1 = [] \<longleftrightarrow> \<not> 0 < length dfl"
      using assms(4) by auto
    show ?thesis
      using False first
        named_loop [OF assms(2) False bs, of options "parts @ separate (Text (js '', '')) docs1"]
      by (simp add: children_specifierPaths specifierPaths_append importSpecifiers_append
            bs2 hd_commaed [OF d2] e1)
  qed
qed


lemma genericPrintNoParens_ImportDeclaration:
  assumes "map_of fs ''type'' = Some (Str (js ''ImportDeclaration''))"
  shows "genericPrintNoParens otherRule getFirstString ((k, Obj fs) # p) options print
           = print_ImportDeclaration ((k, Obj fs) # p) options print"
  using assms by (simp add: genericPrintNoParens_def js_inject)

text \<open>The rule of \<open>ImportDeclaration\<close> in terms of its loop.\<close>

lemma print_ImportDeclaration_specifiers:
  assumes "map_of fs ''specifiers'' = Some (Arr specs)"
    and "q = (Field ''specifiers'', Arr specs) # (k, Obj fs) # p"
    and "header = importHeader (case map_of fs ''importKind'' of Some v \<Rightarrow> v | None \<Rightarrow> Undefined)"
  shows "print_ImportDeclaration ((k, Obj fs) # p) options print =
     bindE
       (if specs = [] then Inr header
        else bindE (importSpecifiers options print (children q specs) (False, header))
          (\<lambda>(found, parts).
             Inr ((if found
                   then parts @ [Text (if truthy (objectCurlySpacing options)
                                       then js '' }'' else js ''}'')]
                   else parts) @ [Text (js '' from '')])))
       (\<lambda>parts. bindE (call print ((k, Obj fs) # p) [''source'']) (\<lambda>source.
          Inr (concat_doc (parts @ [source, Text (js '';'')]))))"
proof -
  have pos: "positive (Num (int (length specs))) \<longleftrightarrow> specs \<noteq> []"
    by simp
  show ?thesis
    using assms
    by (cases "specs = []")
       (simp_all add: print_ImportDeclaration_def Let_def importHeader_def strictEq_Str
          split_def cong: if_cong)
qed

text \<open>
  C9. For an import declaration with an array of specifiers: when a default or
  namespace specifier stands somewhere after a named one, \<open>genericPrintNoParens\<close>
  returns an error and no document, an assertion failure whenever \<open>print\<close> itself
  succeeds on the specifiers; when the default and namespace specifiers all stand before
  the named ones and \<open>print\<close> succeeds on the specifiers and the source, it returns the
  document in which the named specifiers stand between one opening and one closing
  brace.
\<close>

theorem import_specifier_order:
  assumes "map_of fs ''type'' = Some (Str (js ''ImportDeclaration''))"
    and "map_of fs ''specifiers'' = Some (Arr specs)"
    and "q = (Field ''specifiers'', Arr specs) # (k, Obj fs) # p"
    and "header = importHeader (case map_of fs ''importKind'' of Some v \<Rightarrow> v | None \<Rightarrow> Undefined)"
    and "result = genericPrintNoParens otherRule getFirstString ((k, Obj fs) # p) options print"
  shows "(\<forall>xs a ys b zs.
            specs = xs @ a # ys @ b # zs \<and> isNamed a \<and> isDefaultOrNamespace b \<longrightarrow>
            (\<exists>e. result = Inl e
               \<and> ((\<forall>sp \<in> set (children q specs). \<exists>d. print sp = Inr d) \<longrightarrow> isAssertionFailure e)))
       \<and> (\<forall>dfl nmd docs1 docs2 src.
            specs = dfl @ nmd \<and> (\<forall>v \<in> set dfl. isDefaultOrNamespace v) \<and> (\<forall>v \<in> set nmd. isNamed v)
            \<and> mapE print (children q specs) = Inr (docs1 @ docs2) \<and> length docs1 = length dfl
            \<and> call print ((k, Obj fs) # p) [''source''] = Inr src \<longrightarrow>
            result = Inr (concat_doc
              (header
               @ (if specs = [] then []
                  else bracedSpecifiers options docs1 docs2 @ [Text (js '' from '')])
               @ [src, Text (js '';'')])))"
proof (intro conjI allI impI)
  fix xs a ys b zs
  assume h: "specs = xs @ a # ys @ b # zs \<and> isNamed a \<and> isDefaultOrNamespace b"
  then have ne: "specs \<noteq> []"
    by auto
  have "map getValue (children q specs) = xs @ a # ys @ b # zs"
    using h by (simp add: children_specifierPaths map_getValue_specifierPaths)
  then obtain e where e: "importSpecifiers options print (children q specs) (False, header) = Inl e"
    and ok: "(\<forall>sp \<in> set (children q specs). \<exists>d. print sp = Inr d) \<longrightarrow> isAssertionFailure e"
    using named_before_default_aborts [of "children q specs" xs a ys b zs options print False header] h
    by blast
  have "result = Inl e"
    using e ne
    by (simp add: assms(5) genericPrintNoParens_ImportDeclaration [OF assms(1)]
          print_ImportDeclaration_specifiers [OF assms(2,3,4)])
  then show "\<exists>e. result = Inl e
      \<and> ((\<forall>sp \<in> set (children q specs). \<exists>d. print sp = Inr d) \<longrightarrow> isAssertionFailure e)"
    using ok by blast
next
  fix dfl nmd docs1 docs2 src
  assume h: "specs = dfl @ nmd \<and> (\<forall>v \<in> set dfl. isDefaultOrNamespace v) \<and> (\<forall>v \<in> set nmd. isNamed v)
    \<and> mapE print (children q specs) = Inr (docs1 @ docs2) \<and> length docs1 = length dfl
    \<and> call print ((k, Obj fs) # p) [''source''] = Inr src"
  then have h1: "\<forall>v \<in> set dfl. isDefaultOrNamespace v" and h2: "\<forall>v \<in> set nmd. isNamed v"
    and h3: "mapE print (children q (dfl @ nmd)) = Inr (docs1 @ docs2)"
    and h4: "length docs1 = length dfl" and sp: "specs = dfl @ nmd"
    by auto
  have loop: "importSpecifiers options print (children q specs) (False, header)
     = Inr (nmd \<noteq> [],
         header @ separate (Text (js '', '')) docs1
         @ (if nmd = [] then []
            else (if docs1 = [] then [] else [Text (js '', '')])
              @ leftCurly options # separate (Text (js '', '')) docs2))"
    unfolding sp by (rule ordered_loop [OF h1 h2 h3 h4])
  have "length (docs1 @ docs2) = length (dfl @ nmd)"
    using mapE_length [OF h3] by (simp add: length_children)
  then have d2: "docs2 = [] \<longleftrightarrow> nmd = []"
    using h4 by auto
  have src: "call print ((k, Obj fs) # p) [''source''] = Inr src"
    using h by blast
  show "result = Inr (concat_doc
      (header
       @ (if specs = [] then []
          else bracedSpecifiers options docs1 docs2 @ [Text (js '' from '')])
       @ [src, Text (js '';'')]))"
    using src loop d2
    by (simp add: assms(5) genericPrintNoParens_ImportDeclaration [OF assms(1)]
          print_ImportDeclaration_specifiers [OF assms(2,3,4)] bracedSpecifiers_def leftCurly_def)
qed

theorem import_specifier_order_witness:
  "(\<exists>e. genericPrintNoParens noRule firstString
          (from_ast (importNode [''ImportSpecifier'', ''ImportDefaultSpecifier'']))
          options0 (\<lambda>q. Inr (Text (js ''x''))) = Inl e
        \<and> isAssertionFailure e)
   \<and> genericPrintNoParens noRule firstString
        (from_ast (importNode [''ImportDefaultSpecifier'', ''ImportSpecifier'', ''ImportSpecifier'']))
        options0 (\<lambda>q. Inr (Text (js ''x'')))
      = Inr (concat_doc
          [Text (js ''import ''), Text (js ''x''), Text (js '', ''), Text (js ''{ ''),
           Text (js ''x''), Text (js '', ''), Text (js ''x''), Text (js '' }''),
           Text (js '' from ''), Text (js ''x''), Text (js '';'')])"
proof -
  let ?named = "Obj [(''type'', Str (js ''ImportSpecifier''))]"
  let ?default = "Obj [(''type'', Str (js ''ImportDefaultSpecifier''))]"
  let ?pr = "\<lambda>q::path. (Inr (Text (js ''x'')) :: error + doc)"
  let ?bad = "[(''type'', Str (js ''ImportDeclaration'')),
      (''specifiers'', Arr [?named, ?default]), (''source'', Null)]"
  let ?good = "[(''type'', Str (js ''ImportDeclaration'')),
      (''specifiers'', Arr [?default, ?named, ?named]), (''source'', Null)]"
  have n: "isNamed ?named" and d: "isDefaultOrNamespace ?default"
    by (simp_all add: isNamed_def isDefaultOrNamespace_def)
  have tb: "map_of ?bad ''type'' = Some (Str (js ''ImportDeclaration''))"
    by simp
  have sb: "map_of ?bad ''specifiers'' = Some (Arr [?named, ?default])"
    by simp
  have lb: "[?named, ?default] = [] @ ?named # [] @ ?default # []
      \<and> isNamed ?named \<and> isDefaultOrNamespace ?default"
    using n d by simp
  have "\<exists>e. genericPrintNoParens noRule firstString [(Root, Obj ?bad)] options0 ?pr = Inl e
      \<and> ((\<forall>sp \<in> set (children [(Field ''specifiers'', Arr [?named, ?default]), (Root, Obj ?bad)]
               [?named, ?default]). \<exists>d. ?pr sp = Inr d) \<longrightarrow> isAssertionFailure e)"
    by (rule import_specifier_order [where fs = ?bad and specs = "[?named, ?default]" and k = Root
        and p = "[]" and otherRule = noRule and getFirstString = firstString
        and options = options0 and print = ?pr, OF tb sb refl refl refl,
        THEN conjunct1, rule_format, OF lb])
  then have "\<exists>e. genericPrintNoParens noRule firstString [(Root, Obj ?bad)] options0 ?pr = Inl e
      \<and> isAssertionFailure e"
    by blast
  then have bad: "\<exists>e. genericPrintNoParens noRule firstString
          (from_ast (importNode [''ImportSpecifier'', ''ImportDefaultSpecifier'']))
          options0 ?pr = Inl e \<and> isAssertionFailure e"
    by (simp add: from_ast_def importNode_def)
  have tg: "map_of ?good ''type'' = Some (Str (js ''ImportDeclaration''))"
    by simp
  have sg: "map_of ?good ''specifiers'' = Some (Arr [?default, ?named, ?named])"
    by simp
  have m: "mapE ?pr (children [(Field ''specifiers'', Arr [?default, ?named, ?named]), (Root, Obj ?good)]
        [?default, ?named, ?named])
      = Inr ([Text (js ''x'')] @ [Text (js ''x''), Text (js ''x'')])"
    by (simp add: children_def)
  have c: "call ?pr [(Root, Obj ?good)] [''source''] = Inr (Text (js ''x''))"
    by (simp add: call_def)
  have lg: "[?default, ?named, ?named] = [?default] @ [?named, ?named]
      \<and> (\<forall>v \<in> set [?default]. isDefaultOrNamespace v) \<and> (\<forall>v \<in> set [?named, ?named]. isNamed v)
      \<and> mapE ?pr (children [(Field ''specifiers'', Arr [?default, ?named, ?named]), (Root, Obj ?good)]
            [?default, ?named, ?named])
          = Inr ([Text (js ''x'')] @ [Text (js ''x''), Text (js ''x'')])
      \<and> length [Text (js ''x'')] = length [?default]
      \<and> call ?pr [(Root, Obj ?good)] [''source''] = Inr (Text (js ''x''))"
    using n d m c by simp
  have "genericPrintNoParens noRule firstString [(Root, Obj ?good)] options0 ?pr
      = Inr (concat_doc
          (importHeader (case map_of ?good ''importKind'' of Some v \<Rightarrow> v | None \<Rightarrow> Undefined)
           @ (if [?default, ?named, ?named] = [] then []
              else bracedSpecifiers options0 [Text (js ''x'')] [Text (js ''x''), Text (js ''x'')]
                @ [Text (js '' from '')])
           @ [Text (js ''x''), Text (js '';'')]))"
    by (rule import_specifier_order [where fs = ?good and specs = "[?default, ?named, ?named]"
        and k = Root and p = "[]" and otherRule = noRule and getFirstString = firstString
        and options = options0 and print = ?pr, OF tg sg refl refl refl,
        THEN conjunct2, rule_format, OF lg])
  then have good: "genericPrintNoParens noRule firstString
        (from_ast (importNode [''ImportDefaultSpecifier'', ''ImportSpecifier'', ''ImportSpecifier'']))
        options0 ?pr
      = Inr (concat_doc
          [Text (js ''import ''), Text (js ''x''), Text (js '', ''), Text (js ''{ ''),
           Text (js ''x''), Text (js '', ''), Text (js ''x''), Text (js '' }''),
           Text (js '' from ''), Text (js ''x''), Text (js '';'')])"
    by (simp add: from_ast_def importNode_def importHeader_def bracedSpecifiers_def options0_def)
  show ?thesis
    using bad good by blast
qed

section \<open>The store\<close>

lemma isFrame_refl: "isFrame R \<Longrightarrow> R h h"
  by (simp add: isFrame_def)













lemma keeps_getNode: "isFrame R \<Longrightarrow> keeps R (getNode p)"
  by (simp add: keeps_def getNode_def isFrame_refl)

lemma keeps_sassertType: "isFrame R \<Longrightarrow> keeps R (sassertType v t)"
  by (simp add: keeps_def sassertType_def isFrame_refl)























end
